theory Spec2Isabelle
  imports Complex_Main
begin

section \<open>Promotion studio: the prediction engine and the profile mixer\<close>

text \<open>
  A shallow embedding of \<^verbatim>\<open>python/acquisition_model.py\<close>, \<^verbatim>\<open>python/churn_model.py\<close>,
  \<^verbatim>\<open>python/migration_model.py\<close> and of the profile mixer of
  \<^verbatim>\<open>scripts/regenerate_data_option1.py\<close>.

  Numbers: a Python \<^verbatim>\<open>float\<close> is modelled as a \<^typ>\<open>real\<close>, \<^verbatim>\<open>np.exp\<close> as \<^const>\<open>exp\<close> and
  \<^verbatim>\<open>np.sqrt\<close> as \<^const>\<open>sqrt\<close>: arithmetic is exact, and rounding, overflow, underflow, infinities
  and NaN of IEEE doubles are not represented. The one place where the code itself tests
  a floating-point effect is the guard \<^verbatim>\<open>predicted_adds > 0\<close> of \<^verbatim>\<open>predict_acquisition\<close>;
  there the underflow of \<^verbatim>\<open>np.exp\<close> to 0.0 is modelled as well (\<open>np_exp\<close>,
  \<open>predict_acquisition_f64\<close>).

  Dictionaries: a scenario, a promotion and a segment are dictionaries read with
  \<^verbatim>\<open>d.get(key, default)\<close> or \<^verbatim>\<open>d[key]\<close>; each is a record with one optional field per key
  that the code reads, \<open>None\<close> for an absent key. A dictionary that the code builds and
  returns with string keys is an association list in insertion order.
\<close>

subsection \<open>Errors\<close>

datatype py_error = KeyError string | ValueError

subsection \<open>Inputs\<close>

record promotion =
  discount_pct :: "real option"
  other_keys :: "string list"

text \<open>\<^verbatim>\<open>if scenario.get('promotion')\<close>: an absent key and an empty dictionary are both falsy.\<close>

definition promotion_truthy :: "promotion option \<Rightarrow> bool" where
  "promotion_truthy p =
     (case p of None \<Rightarrow> False
      | Some d \<Rightarrow> discount_pct d \<noteq> None \<or> other_keys d \<noteq> [])"

record scenario =
  new_price :: "real option"
  promotion :: "promotion option"
  segment_elasticity :: "real option"
  price_change_pct :: "real option"
  baseline_repeat_loss :: "real option"
  tier :: "string option"
  ad_supported_price :: "real option"
  ad_free_price :: "real option"

record segment =
  name :: "string option"
  size :: "real option"
  elasticity :: "real option"

text \<open>\<^verbatim>\<open>d.get(key, default)\<close> and \<^verbatim>\<open>d[key]\<close>.\<close>

definition get_or :: "'a option \<Rightarrow> 'a \<Rightarrow> 'a" where
  "get_or v d = (case v of None \<Rightarrow> d | Some x \<Rightarrow> x)"

definition subscript :: "string \<Rightarrow> 'a option \<Rightarrow> py_error + 'a" where
  "subscript k v = (case v of None \<Rightarrow> Inl (KeyError k) | Some x \<Rightarrow> Inr x)"

subsection \<open>Acquisition model\<close>

record acquisition_coefficients =
  acq_intercept :: real
  acq_price :: real
  acq_promo_discount :: real
  acq_is_promo :: real
  acq_segment_elasticity_factor :: real

definition ACQUISITION_COEFFICIENTS :: acquisition_coefficients where
  "ACQUISITION_COEFFICIENTS =
     \<lparr> acq_intercept = 6.5, acq_price = - 0.25, acq_promo_discount = 0.03,
       acq_is_promo = 0.4, acq_segment_elasticity_factor = 0.12 \<rparr>"

record acquisition_result =
  predicted_adds :: real
  ci_lower :: real
  ci_upper :: real
  acq_elasticity :: real
  confidence :: real

text \<open>The pair \<^verbatim>\<open>(promo_discount, is_promo)\<close> that the \<^verbatim>\<open>if scenario.get('promotion')\<close> block leaves.\<close>

definition acq_promo_features :: "scenario \<Rightarrow> real \<times> real" where
  "acq_promo_features sc =
     (case promotion sc of
        None \<Rightarrow> (0, 0)
      | Some promo \<Rightarrow>
          if promotion_truthy (Some promo)
          then (get_or (discount_pct promo) 0 / 100.0, 1)
          else (0, 0))"

definition acq_log_adds :: "scenario \<Rightarrow> real" where
  "acq_log_adds sc =
     (let price = get_or (new_price sc) 8.99;
          (promo_discount, is_promo) = acq_promo_features sc;
          seg_elasticity = get_or (segment_elasticity sc) (- 1.8)
      in acq_intercept ACQUISITION_COEFFICIENTS
         + acq_price ACQUISITION_COEFFICIENTS * price
         + acq_promo_discount ACQUISITION_COEFFICIENTS * promo_discount * 100
         + acq_is_promo ACQUISITION_COEFFICIENTS * is_promo
         + acq_segment_elasticity_factor ACQUISITION_COEFFICIENTS * \<bar>seg_elasticity\<bar>)"

definition predict_acquisition :: "scenario \<Rightarrow> acquisition_result" where
  "predict_acquisition sc =
     (let price = get_or (new_price sc) 8.99;
          log_adds = acq_log_adds sc;
          adds = exp log_adds;
          se = sqrt adds
      in \<lparr> predicted_adds = adds,
           ci_lower = max 0 (adds - 1.96 * se),
           ci_upper = adds + 1.96 * se,
           acq_elasticity = acq_price ACQUISITION_COEFFICIENTS * price,
           confidence = (if adds > 0 then se / adds * 100 else 0) \<rparr>)"

record segment_acquisition_result =
  sa_name :: string
  sa_size :: real
  sa_predicted_adds :: real
  sa_elasticity :: real
  lift_at_minus_5pct :: real
  lift_at_plus_5pct :: real
  sa_confidence :: real

text \<open>
  One iteration of the loop of \<^verbatim>\<open>predict_acquisition_by_segment\<close>. The elasticity is read
  with a default for the segment's scenario, and again with \<^verbatim>\<open>segment['elasticity']\<close> for the
  lifts; the subscripts are in the order the code evaluates them.
\<close>

definition acquisition_for_segment ::
    "scenario \<Rightarrow> segment \<Rightarrow> py_error + segment_acquisition_result" where
  "acquisition_for_segment sc seg =
     (let seg_scenario = sc\<lparr>segment_elasticity := Some (get_or (elasticity seg) (- 1.8))\<rparr>;
          prediction = predict_acquisition seg_scenario
      in case subscript ''size'' (size seg) of Inl e \<Rightarrow> Inl e | Inr sz \<Rightarrow>
         (let segment_adds = predicted_adds prediction * (sz / 50000) in
          case subscript ''elasticity'' (elasticity seg) of Inl e \<Rightarrow> Inl e | Inr el \<Rightarrow>
          (let lift_minus_5 = - 5.0 * el;
               lift_plus_5 = 5.0 * el;
               segment_confidence =
                 (if segment_adds > 0 then (1.0 / sqrt (max segment_adds 1)) * 100 else 10.0)
           in case subscript ''name'' (name seg) of Inl e \<Rightarrow> Inl e | Inr nm \<Rightarrow>
              Inr \<lparr> sa_name = nm, sa_size = sz, sa_predicted_adds = segment_adds,
                    sa_elasticity = el, lift_at_minus_5pct = lift_minus_5,
                    lift_at_plus_5pct = lift_plus_5,
                    sa_confidence = min segment_confidence 15.0 \<rparr>)))"

fun predict_acquisition_by_segment ::
    "scenario \<Rightarrow> segment list \<Rightarrow> py_error + segment_acquisition_result list" where
  "predict_acquisition_by_segment sc [] = Inr []"
| "predict_acquisition_by_segment sc (seg # segs) =
     (case acquisition_for_segment sc seg of Inl e \<Rightarrow> Inl e
      | Inr r \<Rightarrow> (case predict_acquisition_by_segment sc segs of Inl e \<Rightarrow> Inl e
                 | Inr rs \<Rightarrow> Inr (r # rs)))"

subsection \<open>Repeat-loss model\<close>

record repeat_loss_coefficients =
  rl_intercept :: real
  rl_price_change_pct :: real
  price_x_0_4wks :: real
  price_x_4_8wks :: real
  price_x_8_12wks :: real
  price_x_12plus :: real

definition REPEAT_LOSS_COEFFICIENTS :: repeat_loss_coefficients where
  "REPEAT_LOSS_COEFFICIENTS =
     \<lparr> rl_intercept = - 2.944, rl_price_change_pct = 0.01,
       price_x_0_4wks = 0.006, price_x_4_8wks = 0.018,
       price_x_8_12wks = 0.028, price_x_12plus = 0.008 \<rparr>"

definition logistic :: "real \<Rightarrow> real" where
  "logistic x = 1 / (1 + exp (- x))"

record repeat_loss_result =
  repeat_loss_rate :: real
  repeat_loss_uplift :: real
  repeat_loss_uplift_pp :: real

text \<open>The body of the loop over the horizons, for one horizon's coefficient.\<close>

definition horizon_result :: "real \<Rightarrow> real \<Rightarrow> real \<Rightarrow> repeat_loss_result" where
  "horizon_result pcp baseline coef =
     (let log_odds = rl_intercept REPEAT_LOSS_COEFFICIENTS
                     + rl_price_change_pct REPEAT_LOSS_COEFFICIENTS * pcp
                     + coef * pcp;
          repeat_loss_prob = logistic log_odds;
          uplift = repeat_loss_prob - baseline
      in \<lparr> repeat_loss_rate = repeat_loss_prob,
           repeat_loss_uplift = uplift,
           repeat_loss_uplift_pp = uplift * 100 \<rparr>)"

definition predict_repeat_loss_by_horizon :: "scenario \<Rightarrow> (string \<times> repeat_loss_result) list" where
  "predict_repeat_loss_by_horizon sc =
     (let pcp = get_or (price_change_pct sc) 0;
          baseline = get_or (baseline_repeat_loss sc) 0.05;
          horizons =
            [(''0-4 Weeks'', price_x_0_4wks REPEAT_LOSS_COEFFICIENTS),
             (''4-8 Weeks'', price_x_4_8wks REPEAT_LOSS_COEFFICIENTS),
             (''8-12 Weeks'', price_x_8_12wks REPEAT_LOSS_COEFFICIENTS),
             (''12+ Weeks'', price_x_12plus REPEAT_LOSS_COEFFICIENTS)]
      in map (\<lambda>(horizon_name, coef). (horizon_name, horizon_result pcp baseline coef)) horizons)"

text \<open>
  \<^verbatim>\<open>str.replace\<close> of a one-character pattern and \<^verbatim>\<open>str.lower\<close>, the latter on the ASCII
  letters (the labels of this program are ASCII).
\<close>

definition replace_char :: "char \<Rightarrow> string \<Rightarrow> string \<Rightarrow> string" where
  "replace_char c r s = concat (map (\<lambda>d. if d = c then r else [d]) s)"

definition lower_char :: "char \<Rightarrow> char" where
  "lower_char c =
     (let n = (of_char c :: nat) in if 65 \<le> n \<and> n \<le> 90 then char_of (n + 32) else c)"

definition lower :: "string \<Rightarrow> string" where
  "lower s = map lower_char s"

definition horizon_key :: "string \<Rightarrow> string" where
  "horizon_key horizon =
     lower (replace_char (CHR ''+'') ''plus''
              (replace_char (CHR ''-'') ''_'' (replace_char (CHR '' '') ''_'' horizon)))"

record segment_repeat_loss_result =
  sr_name :: string
  sr_size :: real
  sr_repeat_loss :: "(string \<times> real) list"

definition repeat_loss_for_segment ::
    "scenario \<Rightarrow> segment \<Rightarrow> py_error + segment_repeat_loss_result" where
  "repeat_loss_for_segment sc seg =
     (let horizons = predict_repeat_loss_by_horizon sc;
          el = \<bar>get_or (elasticity seg) (- 2.0)\<bar>;
          segment_multiplier = 0.7 + (min el 4.0 / 4.0) * 0.6
      in case subscript ''name'' (name seg) of Inl e \<Rightarrow> Inl e | Inr nm \<Rightarrow>
         (case subscript ''size'' (size seg) of Inl e \<Rightarrow> Inl e | Inr sz \<Rightarrow>
            Inr \<lparr> sr_name = nm, sr_size = sz,
                  sr_repeat_loss =
                    map (\<lambda>(horizon, values).
                           (''repeat_loss_'' @ horizon_key horizon,
                            repeat_loss_uplift_pp values * segment_multiplier))
                        horizons \<rparr>))"

fun predict_repeat_loss_by_segment ::
    "scenario \<Rightarrow> segment list \<Rightarrow> py_error + segment_repeat_loss_result list" where
  "predict_repeat_loss_by_segment sc [] = Inr []"
| "predict_repeat_loss_by_segment sc (seg # segs) =
     (case repeat_loss_for_segment sc seg of Inl e \<Rightarrow> Inl e
      | Inr r \<Rightarrow> (case predict_repeat_loss_by_segment sc segs of Inl e \<Rightarrow> Inl e
                 | Inr rs \<Rightarrow> Inr (r # rs)))"

subsection \<open>Tier-migration model\<close>

text \<open>One record type for each shape of coefficient row, one record for each table.\<close>

record value_row =
  vr_intercept :: real
  vr_value_savings_pct :: real
  vr_has_content_need :: real
  vr_tenure_months :: real

record pressure_row =
  pr_intercept :: real
  pr_price_pressure :: real
  pr_tenure_months :: real

record sensitivity_row =
  st_intercept :: real
  st_price_sensitivity :: real
  st_content_satisfaction :: real
  st_tenure_months :: real

record content_row =
  cr_intercept :: real
  cr_content_need :: real
  cr_tenure_months :: real

record gap_row =
  gr_intercept :: real
  gr_price_gap :: real
  gr_has_promo :: real
  gr_tenure_months :: real

record bundle_coefficients =
  ad_supp_to_bundle :: value_row
  ad_free_to_bundle :: value_row
  bundle_to_ad_free :: pressure_row
  bundle_to_ad_supp :: pressure_row

record basic_coefficients =
  ad_supp_to_basic :: sensitivity_row
  basic_to_ad_supp :: content_row
  ad_free_to_basic :: pressure_row
  basic_to_ad_free :: content_row

record migration_coefficients_2tier =
  upgrade :: gap_row
  downgrade :: gap_row
  cancel :: gap_row

definition BUNDLE_COEFFICIENTS :: bundle_coefficients where
  "BUNDLE_COEFFICIENTS =
     \<lparr> ad_supp_to_bundle =
         \<lparr> vr_intercept = - 2.6, vr_value_savings_pct = 0.020,
           vr_has_content_need = 0.5, vr_tenure_months = 0.006 \<rparr>,
       ad_free_to_bundle =
         \<lparr> vr_intercept = - 0.5, vr_value_savings_pct = 0.03,
           vr_has_content_need = 0.8, vr_tenure_months = 0.012 \<rparr>,
       bundle_to_ad_free =
         \<lparr> pr_intercept = - 4.0, pr_price_pressure = 0.10, pr_tenure_months = - 0.018 \<rparr>,
       bundle_to_ad_supp =
         \<lparr> pr_intercept = - 5.0, pr_price_pressure = 0.15, pr_tenure_months = - 0.025 \<rparr> \<rparr>"

definition BASIC_COEFFICIENTS :: basic_coefficients where
  "BASIC_COEFFICIENTS =
     \<lparr> ad_supp_to_basic =
         \<lparr> st_intercept = - 1.4, st_price_sensitivity = 0.12,
           st_content_satisfaction = - 0.18, st_tenure_months = - 0.010 \<rparr>,
       basic_to_ad_supp =
         \<lparr> cr_intercept = - 1.2, cr_content_need = 0.22, cr_tenure_months = 0.015 \<rparr>,
       ad_free_to_basic =
         \<lparr> pr_intercept = - 2.8, pr_price_pressure = 0.15, pr_tenure_months = - 0.018 \<rparr>,
       basic_to_ad_free =
         \<lparr> cr_intercept = - 3.0, cr_content_need = 0.20, cr_tenure_months = 0.010 \<rparr> \<rparr>"

definition MIGRATION_COEFFICIENTS_2TIER :: migration_coefficients_2tier where
  "MIGRATION_COEFFICIENTS_2TIER =
     \<lparr> upgrade =
         \<lparr> gr_intercept = - 1.5, gr_price_gap = - 0.08,
           gr_has_promo = 0.4, gr_tenure_months = 0.01 \<rparr>,
       downgrade =
         \<lparr> gr_intercept = - 2.8, gr_price_gap = 0.08,
           gr_has_promo = - 0.3, gr_tenure_months = - 0.015 \<rparr>,
       cancel =
         \<lparr> gr_intercept = - 2.5, gr_price_gap = 0.05,
           gr_has_promo = - 0.2, gr_tenure_months = - 0.02 \<rparr> \<rparr>"

text \<open>
  \<^verbatim>\<open>softmax\<close> on an array, as a list. \<^verbatim>\<open>np.max\<close> raises on an empty array; every call
  of the program passes a four-element array.
\<close>

definition softmax :: "real list \<Rightarrow> real list" where
  "softmax x =
     (let exp_x = map (\<lambda>v. exp (v - Max (set x))) x
      in map (\<lambda>e. e / sum_list exp_x) exp_x)"

definition detect_tier_config :: "scenario \<Rightarrow> string" where
  "detect_tier_config sc =
     (let tier_label = lower (get_or (tier sc) ''ad_supported'');
          price = get_or (new_price sc) 0
      in if tier_label = ''bundle'' \<or> (price \<ge> 13.99 \<and> price \<le> 15.99) then ''3-tier-bundle''
         else if tier_label = ''basic'' \<or> (price \<ge> 1.99 \<and> price \<le> 3.99) then ''3-tier-basic''
         else ''2-tier'')"

record migration_matrix =
  origins :: "(string \<times> (string \<times> real) list) list"
  tier_config :: string

definition has_promo_of :: "scenario \<Rightarrow> real" where
  "has_promo_of sc = (if promotion_truthy (promotion sc) then 1 else 0)"

definition avg_tenure :: real where
  "avg_tenure = 12"

definition predict_3tier_bundle :: "scenario \<Rightarrow> migration_matrix" where
  "predict_3tier_bundle sc =
     (let has_promo = has_promo_of sc;
          savings_pct = 21.0;
          u_stay_as = 0;
          u_to_af =
            gr_intercept (upgrade MIGRATION_COEFFICIENTS_2TIER)
            + gr_price_gap (upgrade MIGRATION_COEFFICIENTS_2TIER) * 3.0
            + gr_has_promo (upgrade MIGRATION_COEFFICIENTS_2TIER) * has_promo
            + gr_tenure_months (upgrade MIGRATION_COEFFICIENTS_2TIER) * avg_tenure;
          u_to_bundle =
            vr_intercept (ad_supp_to_bundle BUNDLE_COEFFICIENTS)
            + vr_value_savings_pct (ad_supp_to_bundle BUNDLE_COEFFICIENTS) * savings_pct
            + vr_has_content_need (ad_supp_to_bundle BUNDLE_COEFFICIENTS) * 0.15
            + vr_tenure_months (ad_supp_to_bundle BUNDLE_COEFFICIENTS) * avg_tenure;
          u_cancel_as =
            gr_intercept (cancel MIGRATION_COEFFICIENTS_2TIER)
            + gr_has_promo (cancel MIGRATION_COEFFICIENTS_2TIER) * has_promo
            + gr_tenure_months (cancel MIGRATION_COEFFICIENTS_2TIER) * avg_tenure;
          probs_as = softmax [u_stay_as, u_to_af, u_to_bundle, u_cancel_as];
          u_stay_af = 0;
          u_af_to_bundle =
            vr_intercept (ad_free_to_bundle BUNDLE_COEFFICIENTS)
            + vr_value_savings_pct (ad_free_to_bundle BUNDLE_COEFFICIENTS) * savings_pct
            + vr_has_content_need (ad_free_to_bundle BUNDLE_COEFFICIENTS) * 0.45
            + vr_tenure_months (ad_free_to_bundle BUNDLE_COEFFICIENTS) * avg_tenure;
          u_af_to_as =
            gr_intercept (downgrade MIGRATION_COEFFICIENTS_2TIER)
            + gr_price_gap (downgrade MIGRATION_COEFFICIENTS_2TIER) * 3.0
            + gr_has_promo (downgrade MIGRATION_COEFFICIENTS_2TIER) * has_promo
            + gr_tenure_months (downgrade MIGRATION_COEFFICIENTS_2TIER) * avg_tenure;
          u_cancel_af =
            gr_intercept (cancel MIGRATION_COEFFICIENTS_2TIER) - 0.3
            + gr_has_promo (cancel MIGRATION_COEFFICIENTS_2TIER) * has_promo
            + gr_tenure_months (cancel MIGRATION_COEFFICIENTS_2TIER) * avg_tenure;
          probs_af = softmax [u_stay_af, u_af_to_bundle, u_af_to_as, u_cancel_af];
          u_stay_bundle = 0;
          u_bundle_to_af =
            pr_intercept (bundle_to_ad_free BUNDLE_COEFFICIENTS)
            + pr_price_pressure (bundle_to_ad_free BUNDLE_COEFFICIENTS) * 2.0
            + pr_tenure_months (bundle_to_ad_free BUNDLE_COEFFICIENTS) * avg_tenure;
          u_bundle_to_as =
            pr_intercept (bundle_to_ad_supp BUNDLE_COEFFICIENTS)
            + pr_price_pressure (bundle_to_ad_supp BUNDLE_COEFFICIENTS) * 3.0
            + pr_tenure_months (bundle_to_ad_supp BUNDLE_COEFFICIENTS) * avg_tenure;
          u_cancel_bundle =
            gr_intercept (cancel MIGRATION_COEFFICIENTS_2TIER) - 0.5
            + gr_has_promo (cancel MIGRATION_COEFFICIENTS_2TIER) * has_promo
            + gr_tenure_months (cancel MIGRATION_COEFFICIENTS_2TIER) * avg_tenure;
          probs_bundle = softmax [u_stay_bundle, u_bundle_to_af, u_bundle_to_as, u_cancel_bundle]
      in \<lparr> origins =
             [(''from_ad_supported'',
                 [(''stay'', probs_as ! 0), (''to_ad_free'', probs_as ! 1),
                  (''to_bundle'', probs_as ! 2), (''to_basic'', 0.0),
                  (''cancel'', probs_as ! 3)]),
              (''from_ad_free'',
                 [(''stay'', probs_af ! 0), (''to_bundle'', probs_af ! 1),
                  (''to_ad_supported'', probs_af ! 2), (''to_basic'', 0.0),
                  (''cancel'', probs_af ! 3)]),
              (''from_bundle'',
                 [(''stay'', probs_bundle ! 0), (''to_ad_free'', probs_bundle ! 1),
                  (''to_ad_supported'', probs_bundle ! 2), (''to_basic'', 0.0),
                  (''cancel'', probs_bundle ! 3)])],
           tier_config = ''3-tier-bundle'' \<rparr>)"

definition predict_3tier_basic :: "scenario \<Rightarrow> migration_matrix" where
  "predict_3tier_basic sc =
     (let has_promo = has_promo_of sc;
          u_stay_basic = 0;
          u_basic_to_as =
            cr_intercept (basic_to_ad_supp BASIC_COEFFICIENTS)
            + cr_content_need (basic_to_ad_supp BASIC_COEFFICIENTS) * 0.4
            + cr_tenure_months (basic_to_ad_supp BASIC_COEFFICIENTS) * avg_tenure;
          u_basic_to_af =
            cr_intercept (basic_to_ad_free BASIC_COEFFICIENTS)
            + cr_content_need (basic_to_ad_free BASIC_COEFFICIENTS) * 0.2
            + cr_tenure_months (basic_to_ad_free BASIC_COEFFICIENTS) * avg_tenure;
          u_cancel_basic =
            gr_intercept (cancel MIGRATION_COEFFICIENTS_2TIER) + 0.5
            + gr_has_promo (cancel MIGRATION_COEFFICIENTS_2TIER) * has_promo
            + gr_tenure_months (cancel MIGRATION_COEFFICIENTS_2TIER) * avg_tenure;
          probs_basic = softmax [u_stay_basic, u_basic_to_as, u_basic_to_af, u_cancel_basic];
          u_stay_as = 0;
          u_as_to_af =
            gr_intercept (upgrade MIGRATION_COEFFICIENTS_2TIER)
            + gr_price_gap (upgrade MIGRATION_COEFFICIENTS_2TIER) * 3.0
            + gr_has_promo (upgrade MIGRATION_COEFFICIENTS_2TIER) * has_promo
            + gr_tenure_months (upgrade MIGRATION_COEFFICIENTS_2TIER) * avg_tenure;
          u_as_to_basic =
            st_intercept (ad_supp_to_basic BASIC_COEFFICIENTS)
            + st_price_sensitivity (ad_supp_to_basic BASIC_COEFFICIENTS) * 0.35
            + st_content_satisfaction (ad_supp_to_basic BASIC_COEFFICIENTS) * 0.20
            + st_tenure_months (ad_supp_to_basic BASIC_COEFFICIENTS) * avg_tenure;
          u_cancel_as =
            gr_intercept (cancel MIGRATION_COEFFICIENTS_2TIER)
            + gr_has_promo (cancel MIGRATION_COEFFICIENTS_2TIER) * has_promo
            + gr_tenure_months (cancel MIGRATION_COEFFICIENTS_2TIER) * avg_tenure;
          probs_as = softmax [u_stay_as, u_as_to_af, u_as_to_basic, u_cancel_as];
          u_stay_af = 0;
          u_af_to_as =
            gr_intercept (downgrade MIGRATION_COEFFICIENTS_2TIER)
            + gr_price_gap (downgrade MIGRATION_COEFFICIENTS_2TIER) * 3.0
            + gr_has_promo (downgrade MIGRATION_COEFFICIENTS_2TIER) * has_promo
            + gr_tenure_months (downgrade MIGRATION_COEFFICIENTS_2TIER) * avg_tenure;
          u_af_to_basic =
            pr_intercept (ad_free_to_basic BASIC_COEFFICIENTS)
            + pr_price_pressure (ad_free_to_basic BASIC_COEFFICIENTS) * 2.0
            + pr_tenure_months (ad_free_to_basic BASIC_COEFFICIENTS) * avg_tenure;
          u_cancel_af =
            gr_intercept (cancel MIGRATION_COEFFICIENTS_2TIER) - 0.3
            + gr_has_promo (cancel MIGRATION_COEFFICIENTS_2TIER) * has_promo
            + gr_tenure_months (cancel MIGRATION_COEFFICIENTS_2TIER) * avg_tenure;
          probs_af = softmax [u_stay_af, u_af_to_as, u_af_to_basic, u_cancel_af]
      in \<lparr> origins =
             [(''from_basic'',
                 [(''stay'', probs_basic ! 0), (''to_ad_supported'', probs_basic ! 1),
                  (''to_ad_free'', probs_basic ! 2), (''to_bundle'', 0.0),
                  (''cancel'', probs_basic ! 3)]),
              (''from_ad_supported'',
                 [(''stay'', probs_as ! 0), (''to_ad_free'', probs_as ! 1),
                  (''to_basic'', probs_as ! 2), (''to_bundle'', 0.0),
                  (''cancel'', probs_as ! 3)]),
              (''from_ad_free'',
                 [(''stay'', probs_af ! 0), (''to_ad_supported'', probs_af ! 1),
                  (''to_basic'', probs_af ! 2), (''to_bundle'', 0.0),
                  (''cancel'', probs_af ! 3)])],
           tier_config = ''3-tier-basic'' \<rparr>)"

text \<open>
  The utilities of the 2-tier model, in the order of the arrays passed to \<^verbatim>\<open>softmax\<close>:
  \<open>- 999\<close> stands in the slot of the destination the topology does not have.
\<close>

definition utilities_2tier_as :: "scenario \<Rightarrow> real list" where
  "utilities_2tier_as sc =
     (let ad_supported_p = get_or (ad_supported_price sc) 5.99;
          ad_free_p = get_or (ad_free_price sc) 8.99;
          has_promo = has_promo_of sc;
          price_gap = ad_free_p - ad_supported_p;
          u_stay_as = 0;
          u_upgrade =
            gr_intercept (upgrade MIGRATION_COEFFICIENTS_2TIER)
            + gr_price_gap (upgrade MIGRATION_COEFFICIENTS_2TIER) * price_gap
            + gr_has_promo (upgrade MIGRATION_COEFFICIENTS_2TIER) * has_promo
            + gr_tenure_months (upgrade MIGRATION_COEFFICIENTS_2TIER) * avg_tenure;
          u_cancel_as =
            gr_intercept (cancel MIGRATION_COEFFICIENTS_2TIER)
            + gr_price_gap (cancel MIGRATION_COEFFICIENTS_2TIER) * price_gap
            + gr_has_promo (cancel MIGRATION_COEFFICIENTS_2TIER) * has_promo
            + gr_tenure_months (cancel MIGRATION_COEFFICIENTS_2TIER) * avg_tenure
      in [u_stay_as, u_upgrade, - 999, u_cancel_as])"

definition utilities_2tier_af :: "scenario \<Rightarrow> real list" where
  "utilities_2tier_af sc =
     (let ad_supported_p = get_or (ad_supported_price sc) 5.99;
          ad_free_p = get_or (ad_free_price sc) 8.99;
          has_promo = has_promo_of sc;
          price_gap = ad_free_p - ad_supported_p;
          u_stay_af = 0;
          u_downgrade =
            gr_intercept (downgrade MIGRATION_COEFFICIENTS_2TIER)
            + gr_price_gap (downgrade MIGRATION_COEFFICIENTS_2TIER) * \<bar>price_gap\<bar>
            + gr_has_promo (downgrade MIGRATION_COEFFICIENTS_2TIER) * has_promo
            + gr_tenure_months (downgrade MIGRATION_COEFFICIENTS_2TIER) * avg_tenure;
          u_cancel_af =
            gr_intercept (cancel MIGRATION_COEFFICIENTS_2TIER)
            + gr_price_gap (cancel MIGRATION_COEFFICIENTS_2TIER) * \<bar>price_gap\<bar>
            + gr_has_promo (cancel MIGRATION_COEFFICIENTS_2TIER) * has_promo
            + gr_tenure_months (cancel MIGRATION_COEFFICIENTS_2TIER) * avg_tenure
      in [u_stay_af, - 999, u_downgrade, u_cancel_af])"

definition predict_2tier :: "scenario \<Rightarrow> migration_matrix" where
  "predict_2tier sc =
     (let probs_as = softmax (utilities_2tier_as sc);
          probs_af = softmax (utilities_2tier_af sc)
      in \<lparr> origins =
             [(''from_ad_supported'',
                 [(''stay'', probs_as ! 0), (''to_ad_free'', probs_as ! 1),
                  (''to_bundle'', 0.0), (''to_basic'', 0.0),
                  (''cancel'', probs_as ! 3)]),
              (''from_ad_free'',
                 [(''stay'', probs_af ! 0), (''to_ad_supported'', probs_af ! 2),
                  (''to_bundle'', 0.0), (''to_basic'', 0.0),
                  (''cancel'', probs_af ! 3)])],
           tier_config = ''2-tier'' \<rparr>)"

definition predict_migration_matrix :: "scenario \<Rightarrow> migration_matrix" where
  "predict_migration_matrix sc =
     (let config = detect_tier_config sc
      in if config = ''3-tier-bundle'' then predict_3tier_bundle sc
         else if config = ''3-tier-basic'' then predict_3tier_basic sc
         else predict_2tier sc)"

subsection \<open>Archetype catalog\<close>

text \<open>
  The time-lag distribution of an archetype is a dictionary with five fixed keys, a record
  here. An archetype carries the keys that every entry of the catalog has; the keys that
  only some entries have are read nowhere in the program.
\<close>

record time_lag =
  w0_4_weeks :: real
  w4_8_weeks :: real
  w8_12_weeks :: real
  w12_16_weeks :: real
  w16_20_weeks :: real

record profile =
  description :: string
  base_acquisition_elasticity :: real
  base_repeat_loss_elasticity :: real
  base_migration_upgrade :: real
  base_migration_downgrade :: real
  tenure_decay_rate :: real
  engagement_offset :: real
  price_history_habituation :: real
  repeat_loss_curve_type :: string
  migration_asymmetry_factor :: real
  time_lag_distribution :: time_lag

definition ELASTICITY_PROFILES :: "(string \<times> profile) list" where
  "ELASTICITY_PROFILES =
     [
       (''ultra_loyal'',
          \<lparr> description = ''Habitual Streamers, Long-Tenure Loyalists, Content-Anchored High-Engagement'',
            base_acquisition_elasticity = (- 0.65), base_repeat_loss_elasticity = 0.25,
            base_migration_upgrade = 1.4, base_migration_downgrade = 0.5,
            tenure_decay_rate = 0.08, engagement_offset = 0.4,
            price_history_habituation = 0.2,
            repeat_loss_curve_type = ''delayed_ramp'',
            migration_asymmetry_factor = 1.8,
            time_lag_distribution =
              \<lparr> w0_4_weeks = 0.05, w4_8_weeks = 0.1, w8_12_weeks = 0.2,
                w12_16_weeks = 0.35, w16_20_weeks = 0.3 \<rparr> \<rparr>),
       (''value_conscious'',
          \<lparr> description = ''Ad-Value Seekers, Value-Perception Buyers'',
            base_acquisition_elasticity = (- 1.8), base_repeat_loss_elasticity = 0.9,
            base_migration_upgrade = 0.8, base_migration_downgrade = 1.3,
            tenure_decay_rate = 0.03, engagement_offset = 0.15,
            price_history_habituation = 0.05,
            repeat_loss_curve_type = ''moderate'',
            migration_asymmetry_factor = 2.2,
            time_lag_distribution =
              \<lparr> w0_4_weeks = 0.15, w4_8_weeks = 0.25, w8_12_weeks = 0.3,
                w12_16_weeks = 0.2, w16_20_weeks = 0.1 \<rparr> \<rparr>),
       (''deal_hunter'',
          \<lparr> description = ''Promo-Only Users, Deal-Responsive Acquirers'',
            base_acquisition_elasticity = (- 3.5), base_repeat_loss_elasticity = 1.6,
            base_migration_upgrade = 0.4, base_migration_downgrade = 2.0,
            tenure_decay_rate = 0.01, engagement_offset = 0.05,
            price_history_habituation = 0.0,
            repeat_loss_curve_type = ''sharp_spike_plateau'',
            migration_asymmetry_factor = 4.5,
            time_lag_distribution =
              \<lparr> w0_4_weeks = 0.4, w4_8_weeks = 0.35, w8_12_weeks = 0.15,
                w12_16_weeks = 0.07, w16_20_weeks = 0.03 \<rparr> \<rparr>),
       (''content_driven'',
          \<lparr> description = ''Content-Anchored Viewers, TVOD-to-SVOD Converters'',
            base_acquisition_elasticity = (- 1.2), base_repeat_loss_elasticity = 0.7,
            base_migration_upgrade = 1.1, base_migration_downgrade = 0.9,
            tenure_decay_rate = 0.05, engagement_offset = 0.25,
            price_history_habituation = 0.12,
            repeat_loss_curve_type = ''conditional_spike'',
            migration_asymmetry_factor = 2.0,
            time_lag_distribution =
              \<lparr> w0_4_weeks = 0.12, w4_8_weeks = 0.22, w8_12_weeks = 0.3,
                w12_16_weeks = 0.25, w16_20_weeks = 0.11 \<rparr> \<rparr>),
       (''tier_flexible'',
          \<lparr> description = ''Price-Triggered Downgraders, Tier Switchers'',
            base_acquisition_elasticity = (- 1.6), base_repeat_loss_elasticity = 0.85,
            base_migration_upgrade = 0.9, base_migration_downgrade = 2.7,
            tenure_decay_rate = 0.04, engagement_offset = 0.18,
            price_history_habituation = 0.08,
            repeat_loss_curve_type = ''moderate'',
            migration_asymmetry_factor = 3.8,
            time_lag_distribution =
              \<lparr> w0_4_weeks = 0.18, w4_8_weeks = 0.28, w8_12_weeks = 0.28,
                w12_16_weeks = 0.18, w16_20_weeks = 0.08 \<rparr> \<rparr>),
       (''premium_seeker'',
          \<lparr> description = ''Ad-Free Loyalists, Ad-Intolerant Upgraders'',
            base_acquisition_elasticity = (- 1.0), base_repeat_loss_elasticity = 0.4,
            base_migration_upgrade = 1.6, base_migration_downgrade = 0.4,
            tenure_decay_rate = 0.06, engagement_offset = 0.3,
            price_history_habituation = 0.15,
            repeat_loss_curve_type = ''gentle_slope'',
            migration_asymmetry_factor = 0.8,
            time_lag_distribution =
              \<lparr> w0_4_weeks = 0.08, w4_8_weeks = 0.12, w8_12_weeks = 0.18,
                w12_16_weeks = 0.3, w16_20_weeks = 0.32 \<rparr> \<rparr>),
       (''at_risk'',
          \<lparr> description = ''At-Risk Lapsers, Dormant Subscribers'',
            base_acquisition_elasticity = (- 2.0), base_repeat_loss_elasticity = 1.2,
            base_migration_upgrade = 0.5, base_migration_downgrade = 1.8,
            tenure_decay_rate = (- 0.02), engagement_offset = 0.1,
            price_history_habituation = 0.03,
            repeat_loss_curve_type = ''accelerating'',
            migration_asymmetry_factor = 3.2,
            time_lag_distribution =
              \<lparr> w0_4_weeks = 0.25, w4_8_weeks = 0.3, w8_12_weeks = 0.25,
                w12_16_weeks = 0.13, w16_20_weeks = 0.07 \<rparr> \<rparr>)
     ]"

subsection \<open>Profile mixer: weights\<close>

text \<open>\<^verbatim>\<open>weights[profile] += v\<close>; every key the program increments is a key of the dictionary.\<close>

definition incr :: "string \<Rightarrow> real \<Rightarrow> (string \<times> real) list \<Rightarrow> (string \<times> real) list" where
  "incr k v weights = map (\<lambda>(p, w). if p = k then (p, w + v) else (p, w)) weights"

definition initial_weights :: "(string \<times> real) list" where
  "initial_weights =
     [(''ultra_loyal'', 0.0), (''value_conscious'', 0.0), (''deal_hunter'', 0.0),
      (''content_driven'', 0.0), (''tier_flexible'', 0.0), (''premium_seeker'', 0.0),
      (''at_risk'', 0.0)]"

text \<open>
  The three \<^verbatim>\<open>if\<close>/\<^verbatim>\<open>elif\<close> chains: the increments that the branch of an axis value
  performs, in the order of the source; no branch is taken for any other value.
\<close>

definition acquisition_axis_mapping :: "string \<Rightarrow> (string \<times> real) list" where
  "acquisition_axis_mapping acquisition_segment =
     (if acquisition_segment = ''habitual_streamers'' then
        [(''ultra_loyal'', 0.6), (''content_driven'', 0.2), (''value_conscious'', 0.2)]
      else if acquisition_segment = ''content_anchored_viewers'' then
        [(''content_driven'', 0.6), (''ultra_loyal'', 0.25), (''value_conscious'', 0.15)]
      else if acquisition_segment = ''at_risk_lapsers'' then
        [(''at_risk'', 0.7), (''value_conscious'', 0.2), (''tier_flexible'', 0.1)]
      else if acquisition_segment = ''promo_only_users'' then
        [(''deal_hunter'', 0.7), (''value_conscious'', 0.3)]
      else if acquisition_segment = ''dormant_customers'' then
        [(''at_risk'', 0.6), (''deal_hunter'', 0.25), (''value_conscious'', 0.15)]
      else [])"

definition engagement_axis_mapping :: "string \<Rightarrow> (string \<times> real) list" where
  "engagement_axis_mapping engagement_segment =
     (if engagement_segment = ''ad_value_seekers'' then
        [(''value_conscious'', 0.5), (''deal_hunter'', 0.3), (''tier_flexible'', 0.2)]
      else if engagement_segment = ''ad_tolerant_upgraders'' then
        [(''tier_flexible'', 0.4), (''value_conscious'', 0.3), (''premium_seeker'', 0.3)]
      else if engagement_segment = ''ad_free_loyalists'' then
        [(''premium_seeker'', 0.6), (''ultra_loyal'', 0.4)]
      else if engagement_segment = ''price_triggered_downgraders'' then
        [(''tier_flexible'', 0.5), (''deal_hunter'', 0.3), (''at_risk'', 0.2)]
      else if engagement_segment = ''tvod_inclined_buyers'' then
        [(''content_driven'', 0.5), (''premium_seeker'', 0.3), (''value_conscious'', 0.2)]
      else [])"

definition monetization_axis_mapping :: "string \<Rightarrow> (string \<times> real) list" where
  "monetization_axis_mapping monetization_segment =
     (if monetization_segment = ''platform_bundled_acquirers'' then
        [(''ultra_loyal'', 0.4), (''value_conscious'', 0.4), (''premium_seeker'', 0.2)]
      else if monetization_segment = ''tvod_to_svod_converters'' then
        [(''content_driven'', 0.5), (''ultra_loyal'', 0.3), (''premium_seeker'', 0.2)]
      else if monetization_segment = ''content_triggered_buyers'' then
        [(''content_driven'', 0.6), (''value_conscious'', 0.25), (''ultra_loyal'', 0.15)]
      else if monetization_segment = ''deal_responsive_acquirers'' then
        [(''deal_hunter'', 0.6), (''value_conscious'', 0.3), (''tier_flexible'', 0.1)]
      else if monetization_segment = ''value_perception_buyers'' then
        [(''value_conscious'', 0.6), (''tier_flexible'', 0.25), (''deal_hunter'', 0.15)]
      else [])"

definition contributions :: "string \<Rightarrow> string \<Rightarrow> string \<Rightarrow> (string \<times> real) list" where
  "contributions acq eng mon =
     acquisition_axis_mapping acq @ engagement_axis_mapping eng @ monetization_axis_mapping mon"

text \<open>The dictionary \<^verbatim>\<open>weights\<close> when the three chains are through, before it is normalised.\<close>

definition accumulated_weights :: "string \<Rightarrow> string \<Rightarrow> string \<Rightarrow> (string \<times> real) list" where
  "accumulated_weights acq eng mon =
     fold (\<lambda>(k, v). incr k v) (contributions acq eng mon) initial_weights"

text \<open>The function has no \<^verbatim>\<open>raise\<close> and no failing subscript: every path returns.\<close>

definition get_profile_weights ::
    "string \<Rightarrow> string \<Rightarrow> string \<Rightarrow> py_error + (string \<times> real) list" where
  "get_profile_weights acq eng mon =
     (let weights = accumulated_weights acq eng mon;
          total = sum_list (map snd weights)
      in Inr (if total > 0 then map (\<lambda>(p, w). (p, w / total)) weights else weights))"

subsection \<open>Profile mixer: blending\<close>

definition lookup_profile :: "string \<Rightarrow> py_error + profile" where
  "lookup_profile p =
     (case map_of ELASTICITY_PROFILES p of None \<Rightarrow> Inl (KeyError p) | Some pr \<Rightarrow> Inr pr)"

text \<open>
  \<^verbatim>\<open>sum(ELASTICITY_PROFILES[profile][field] * weight for profile, weight in items)\<close>: the
  first profile that is not in the catalog raises.
\<close>

fun mix :: "(profile \<Rightarrow> real) \<Rightarrow> (string \<times> real) list \<Rightarrow> py_error + real" where
  "mix field [] = Inr 0"
| "mix field ((p, weight) # rest) =
     (case lookup_profile p of Inl e \<Rightarrow> Inl e
      | Inr pr \<Rightarrow> (case mix field rest of Inl e \<Rightarrow> Inl e
                  | Inr s \<Rightarrow> Inr (field pr * weight + s)))"

definition add_time_lag :: "time_lag \<Rightarrow> time_lag \<Rightarrow> real \<Rightarrow> time_lag" where
  "add_time_lag acc profile_dist weight =
     \<lparr> w0_4_weeks = w0_4_weeks acc + w0_4_weeks profile_dist * weight,
       w4_8_weeks = w4_8_weeks acc + w4_8_weeks profile_dist * weight,
       w8_12_weeks = w8_12_weeks acc + w8_12_weeks profile_dist * weight,
       w12_16_weeks = w12_16_weeks acc + w12_16_weeks profile_dist * weight,
       w16_20_weeks = w16_20_weeks acc + w16_20_weeks profile_dist * weight \<rparr>"

fun blend_time_lag :: "time_lag \<Rightarrow> (string \<times> real) list \<Rightarrow> py_error + time_lag" where
  "blend_time_lag acc [] = Inr acc"
| "blend_time_lag acc ((p, weight) # rest) =
     (case lookup_profile p of Inl e \<Rightarrow> Inl e
      | Inr pr \<Rightarrow> blend_time_lag (add_time_lag acc (time_lag_distribution pr) weight) rest)"

definition zero_time_lag :: time_lag where
  "zero_time_lag =
     \<lparr> w0_4_weeks = 0.0, w4_8_weeks = 0.0, w8_12_weeks = 0.0,
       w12_16_weeks = 0.0, w16_20_weeks = 0.0 \<rparr>"

text \<open>
  \<^verbatim>\<open>max(profile_weights.items(), key=lambda x: x[1])[0]\<close>: the first item of largest weight;
  \<^verbatim>\<open>max\<close> of an empty sequence raises.
\<close>

fun dominant_profile :: "(string \<times> real) list \<Rightarrow> py_error + string" where
  "dominant_profile [] = Inl ValueError"
| "dominant_profile (x # xs) =
     Inr (fst (fold (\<lambda>y best. if snd y > snd best then y else best) xs x))"

record acquisition_axis =
  aa_elasticity :: real
  aa_tenure_decay_rate :: real
  aa_engagement_offset :: real
  aa_price_history_habituation :: real

record repeat_loss_axis =
  ra_elasticity :: real
  ra_repeat_loss_curve_type :: string
  ra_time_lag_distribution :: time_lag

record migration_axis =
  upgrade_willingness :: real
  downgrade_propensity :: real
  asymmetry_factor :: real

record segment_data =
  sd_acquisition_axis :: acquisition_axis
  sd_repeat_loss_axis :: repeat_loss_axis
  sd_migration_axis :: migration_axis
  sd_profile_weights :: "(string \<times> real) list"

text \<open>
  \<^verbatim>\<open>calculate_segment_elasticity\<close>, with the draw of \<^verbatim>\<open>random.uniform(-0.05, 0.05)\<close> as the
  argument \<open>noise\<close>.
\<close>

definition calculate_segment_elasticity ::
    "real \<Rightarrow> (string \<times> real) list \<Rightarrow> py_error + segment_data" where
  "calculate_segment_elasticity noise profile_weights =
     (case mix base_acquisition_elasticity profile_weights of Inl e \<Rightarrow> Inl e
      | Inr acquisition_el \<Rightarrow>
     (case mix base_repeat_loss_elasticity profile_weights of Inl e \<Rightarrow> Inl e
      | Inr repeat_loss_el \<Rightarrow>
     (case mix base_migration_upgrade profile_weights of Inl e \<Rightarrow> Inl e
      | Inr upgrade_w \<Rightarrow>
     (case mix base_migration_downgrade profile_weights of Inl e \<Rightarrow> Inl e
      | Inr downgrade_p \<Rightarrow>
     (case mix tenure_decay_rate profile_weights of Inl e \<Rightarrow> Inl e
      | Inr tenure_decay \<Rightarrow>
     (case mix engagement_offset profile_weights of Inl e \<Rightarrow> Inl e
      | Inr engagement_off \<Rightarrow>
     (case mix price_history_habituation profile_weights of Inl e \<Rightarrow> Inl e
      | Inr habituation \<Rightarrow>
     (case mix migration_asymmetry_factor profile_weights of Inl e \<Rightarrow> Inl e
      | Inr asymmetry \<Rightarrow>
     (case blend_time_lag zero_time_lag profile_weights of Inl e \<Rightarrow> Inl e
      | Inr time_lag_dist \<Rightarrow>
     (case dominant_profile profile_weights of Inl e \<Rightarrow> Inl e
      | Inr dominant \<Rightarrow>
     (case lookup_profile dominant of Inl e \<Rightarrow> Inl e
      | Inr dominant_pr \<Rightarrow>
        Inr \<lparr> sd_acquisition_axis =
                \<lparr> aa_elasticity = acquisition_el * (1 + noise),
                  aa_tenure_decay_rate = tenure_decay,
                  aa_engagement_offset = engagement_off,
                  aa_price_history_habituation = habituation \<rparr>,
              sd_repeat_loss_axis =
                \<lparr> ra_elasticity = repeat_loss_el * (1 + noise),
                  ra_repeat_loss_curve_type = repeat_loss_curve_type dominant_pr,
                  ra_time_lag_distribution = time_lag_dist \<rparr>,
              sd_migration_axis =
                \<lparr> upgrade_willingness = upgrade_w,
                  downgrade_propensity = downgrade_p,
                  asymmetry_factor = asymmetry \<rparr>,
              sd_profile_weights = profile_weights \<rparr>)))))))))))"

subsection \<open>Acquisition model on doubles: underflow of the exponential\<close>

text \<open>
  \<^verbatim>\<open>np.exp\<close> on doubles, as far as underflow goes. The smallest positive double is
  \<open>2 ^ -1074\<close>; rounding to nearest returns 0.0 when the exact exponential is at most half of
  it, \<open>2 ^ -1075\<close> (an argument below about -745.13). Above that the exact value stands for
  the rounded one. Overflow (an argument above about 709.78, result \<^verbatim>\<open>inf\<close>) is not
  represented.
\<close>

definition np_exp :: "real \<Rightarrow> real" where
  "np_exp x = (if exp x * 2 ^ 1075 \<le> 1 then 0 else exp x)"

text \<open>
  The body of \<^verbatim>\<open>predict_acquisition\<close> once more, with the exponential it calls as the
  argument \<open>expf\<close>: with \<^const>\<open>exp\<close> it is \<open>predict_acquisition\<close> above, with \<open>np_exp\<close> it
  is the function as it runs on doubles.
\<close>

definition predict_acquisition_with :: "(real \<Rightarrow> real) \<Rightarrow> scenario \<Rightarrow> acquisition_result" where
  "predict_acquisition_with expf sc =
     (let price = get_or (new_price sc) 8.99;
          log_adds = acq_log_adds sc;
          adds = expf log_adds;
          se = sqrt adds
      in \<lparr> predicted_adds = adds,
           ci_lower = max 0 (adds - 1.96 * se),
           ci_upper = adds + 1.96 * se,
           acq_elasticity = acq_price ACQUISITION_COEFFICIENTS * price,
           confidence = (if adds > 0 then se / adds * 100 else 0) \<rparr>)"

definition predict_acquisition_f64 :: "scenario \<Rightarrow> acquisition_result" where
  "predict_acquisition_f64 sc = predict_acquisition_with np_exp sc"

subsection \<open>Predicates and inputs used in the statements\<close>

text \<open>A destination mapping is a probability vector up to the tolerance \<open>1 / 10 ^ 6\<close>.\<close>

definition probability_vector :: "(string \<times> real) list \<Rightarrow> bool" where
  "probability_vector d \<longleftrightarrow>
     \<bar>sum_list (map snd d) - 1\<bar> \<le> 1 / 10 ^ 6 \<and> (\<forall>(dest, p) \<in> set d. 0 \<le> p \<and> p \<le> 1)"

text \<open>The scenario with no key at all: every \<^verbatim>\<open>get\<close> takes its default.\<close>

definition empty_scenario :: scenario where
  "empty_scenario =
     \<lparr> new_price = None, promotion = None, segment_elasticity = None,
       price_change_pct = None, baseline_repeat_loss = None, tier = None,
       ad_supported_price = None, ad_free_price = None \<rparr>"

definition example_segment :: segment where
  "example_segment = \<lparr> name = Some ''cohort'', size = Some 50000, elasticity = None \<rparr>"

text \<open>What each branch of the three axis chains adds: known archetypes, positive parts, 1 in all.\<close>

definition valid_contributions :: "(string \<times> real) list \<Rightarrow> bool" where
  "valid_contributions cs \<longleftrightarrow>
     set (map fst cs) \<subseteq> set (map fst initial_weights) \<and>
     (\<forall>(k, v) \<in> set cs. 0 < v) \<and>
     sum_list (map snd cs) = (if cs = [] then 0 else 1)"

definition time_lag_total :: "time_lag \<Rightarrow> real" where
  "time_lag_total d =
     w0_4_weeks d + w4_8_weeks d + w8_12_weeks d + w12_16_weeks d + w16_20_weeks d"

definition time_lag_nonneg :: "time_lag \<Rightarrow> bool" where
  "time_lag_nonneg d \<longleftrightarrow>
     0 \<le> w0_4_weeks d \<and> 0 \<le> w4_8_weeks d \<and> 0 \<le> w8_12_weeks d \<and>
     0 \<le> w12_16_weeks d \<and> 0 \<le> w16_20_weeks d"

section \<open>Properties\<close>

subsection \<open>Softmax\<close>


lemma sum_list_divide_const:
  fixes c :: real
  shows "sum_list (map (\<lambda>e. e / c) es) = sum_list es / c"
  by (induction es) (simp_all add: add_divide_distrib)

lemma softmax_length [simp]: "length (softmax x) = length x"
  by (simp add: softmax_def)

lemma sum_list_exp_nonneg:
  "0 \<le> sum_list (map (\<lambda>v. exp (v - m :: real)) x)"
  by (induction x) simp_all

lemma sum_list_exp_ge_1:
  "m \<in> set x \<Longrightarrow> 1 \<le> sum_list (map (\<lambda>v. exp (v - m :: real)) x)"
proof (induction x)
  case Nil
  then show ?case by simp
next
  case (Cons y ys)
  show ?case
  proof (cases "y = m")
    case True
    then show ?thesis using sum_list_exp_nonneg [of m ys] by simp
  next
    case False
    then have "m \<in> set ys" using Cons.prems by simp
    then have "1 \<le> sum_list (map (\<lambda>v. exp (v - m)) ys)" by (rule Cons.IH)
    moreover have "0 < exp (y - m)" by simp
    ultimately show ?thesis unfolding list.map sum_list.Cons by linarith
  qed
qed

lemma softmax_denominator_ge_1:
  fixes x :: "real list"
  assumes "x \<noteq> []"
  shows "1 \<le> sum_list (map (\<lambda>v. exp (v - Max (set x))) x)"
proof -
  have "Max (set x) \<in> set x" using assms by (intro Max_in) simp_all
  then show ?thesis by (rule sum_list_exp_ge_1)
qed

lemma softmax_sum:
  assumes "x \<noteq> []"
  shows "sum_list (softmax x) = 1"
proof -
  have "0 < sum_list (map (\<lambda>v. exp (v - Max (set x))) x)"
    using softmax_denominator_ge_1 [OF assms] by linarith
  then show ?thesis
    unfolding softmax_def Let_def sum_list_divide_const by simp
qed

lemma softmax_nth:
  assumes "i < length x"
  shows "softmax x ! i = exp (x ! i - Max (set x)) / sum_list (map (\<lambda>v. exp (v - Max (set x))) x)"
  using assms by (simp add: softmax_def Let_def)

lemma softmax_nth_bounds:
  assumes "i < length x"
  shows "0 \<le> softmax x ! i" and "softmax x ! i \<le> exp (x ! i - Max (set x))"
    and "softmax x ! i \<le> 1"
proof -
  let ?S = "sum_list (map (\<lambda>v. exp (v - Max (set x))) x)"
  have ne: "x \<noteq> []" using assms by auto
  have S: "1 \<le> ?S" by (rule softmax_denominator_ge_1 [OF ne])
  have e: "0 < exp (x ! i - Max (set x))" by simp
  show "0 \<le> softmax x ! i"
    using S by (simp add: softmax_nth [OF assms])
  show le: "softmax x ! i \<le> exp (x ! i - Max (set x))"
    unfolding softmax_nth [OF assms] using S e
    by (simp add: divide_le_eq mult_le_cancel_left1)
  have "x ! i \<le> Max (set x)" using assms by (intro Max_ge) simp_all
  then have "exp (x ! i - Max (set x)) \<le> 1" by simp
  with le show "softmax x ! i \<le> 1" by linarith
qed

lemma sum_list_4:
  fixes ys :: "real list"
  assumes "length ys = 4"
  shows "sum_list ys = ys ! 0 + ys ! 1 + ys ! 2 + ys ! 3"
proof -
  obtain a b c d where "ys = [a, b, c, d]"
    using assms by (auto simp: length_Suc_conv eval_nat_numeral)
  then show ?thesis by simp
qed

lemma exp_minus_999: "exp (- 999 :: real) \<le> 1 / 1000000"
proof -
  have "(334 :: real) \<le> exp 333" using exp_ge_add_one_self [of "333::real"] by simp
  then have "(334 :: real) ^ 3 \<le> exp 333 ^ 3" by (intro power_mono) simp_all
  also have "exp (333::real) ^ 3 = exp 999"
    by (simp add: exp_of_nat_mult [symmetric])
  finally have "(1000000 :: real) \<le> exp 999" by simp
  then have "1 / exp (999::real) \<le> 1 / 1000000"
    by (intro divide_left_mono) simp_all
  then show ?thesis by (simp add: exp_minus')
qed


lemma softmax_sentinel:
  fixes u :: "real list"
  assumes "j < length u" and "u ! j = - 999" and "0 \<in> set u"
  shows "softmax u ! j \<le> 1 / 1000000"
proof -
  have "0 \<le> Max (set u)" using assms(3) by (intro Max_ge) simp_all
  then have "exp (u ! j - Max (set u)) \<le> exp (- 999)" using assms(2) by simp
  with softmax_nth_bounds(2) [OF assms(1)] exp_minus_999 show ?thesis by linarith
qed

subsection \<open>Tier migration: every row is a probability vector\<close>

lemma pv_full:
  assumes "length u = 4" and "z = 0"
  shows "probability_vector
           [(a, softmax u ! 0), (b, softmax u ! 1), (c, softmax u ! 2), (e, z), (f, softmax u ! 3)]"
proof -
  have ne: "u \<noteq> []" using assms by auto
  have "sum_list (softmax u) = softmax u ! 0 + softmax u ! 1 + softmax u ! 2 + softmax u ! 3"
    by (rule sum_list_4) (simp add: assms)
  then have s: "softmax u ! 0 + softmax u ! 1 + softmax u ! 2 + softmax u ! 3 = 1"
    using softmax_sum [OF ne] by simp
  have b: "\<And>i. i < 4 \<Longrightarrow> 0 \<le> softmax u ! i \<and> softmax u ! i \<le> 1"
    using softmax_nth_bounds(1,3) [of _ u] assms by simp
  show ?thesis
    unfolding probability_vector_def using s b [of 0] b [of 1] b [of 2] b [of 3] assms by simp
qed

lemma pv_drop2:
  assumes "length u = 4" and "u ! 0 = 0" and "u ! 2 = - 999" and "z = 0" and "z' = 0"
  shows "probability_vector
           [(a, softmax u ! 0), (b, softmax u ! 1), (c, z), (e, z'), (f, softmax u ! 3)]"
proof -
  have ne: "u \<noteq> []" using assms by auto
  have z: "0 \<in> set u" using assms(1,2) by (metis nth_mem zero_less_numeral)
  have "sum_list (softmax u) = softmax u ! 0 + softmax u ! 1 + softmax u ! 2 + softmax u ! 3"
    by (rule sum_list_4) (simp add: assms)
  then have s: "softmax u ! 0 + softmax u ! 1 + softmax u ! 2 + softmax u ! 3 = 1"
    using softmax_sum [OF ne] by simp
  have b: "\<And>i. i < 4 \<Longrightarrow> 0 \<le> softmax u ! i \<and> softmax u ! i \<le> 1"
    using softmax_nth_bounds(1,3) [of _ u] assms by simp
  have t: "softmax u ! 2 \<le> 1 / 1000000"
    by (rule softmax_sentinel [OF _ assms(3) z]) (simp add: assms(1))
  show ?thesis
    unfolding probability_vector_def using s t b [of 0] b [of 1] b [of 2] b [of 3] assms by simp
qed

lemma pv_drop1:
  assumes "length u = 4" and "u ! 0 = 0" and "u ! 1 = - 999" and "z = 0" and "z' = 0"
  shows "probability_vector
           [(a, softmax u ! 0), (b, softmax u ! 2), (c, z), (e, z'), (f, softmax u ! 3)]"
proof -
  have ne: "u \<noteq> []" using assms by auto
  have z: "0 \<in> set u" using assms(1,2) by (metis nth_mem zero_less_numeral)
  have "sum_list (softmax u) = softmax u ! 0 + softmax u ! 1 + softmax u ! 2 + softmax u ! 3"
    by (rule sum_list_4) (simp add: assms)
  then have s: "softmax u ! 0 + softmax u ! 1 + softmax u ! 2 + softmax u ! 3 = 1"
    using softmax_sum [OF ne] by simp
  have b: "\<And>i. i < 4 \<Longrightarrow> 0 \<le> softmax u ! i \<and> softmax u ! i \<le> 1"
    using softmax_nth_bounds(1,3) [of _ u] assms by simp
  have t: "softmax u ! 1 \<le> 1 / 1000000"
    by (rule softmax_sentinel [OF _ assms(3) z]) (simp add: assms(1))
  show ?thesis
    unfolding probability_vector_def using s t b [of 0] b [of 1] b [of 2] b [of 3] assms by simp
qed

lemma predict_3tier_bundle_simplex:
  "\<forall>(origin, dist) \<in> set (origins (predict_3tier_bundle sc)). probability_vector dist"
  unfolding predict_3tier_bundle_def Let_def
  by (simp only: migration_matrix.select_convs list.set ball_simps case_prod_conv,
      intro conjI pv_full, simp_all)

lemma predict_3tier_basic_simplex:
  "\<forall>(origin, dist) \<in> set (origins (predict_3tier_basic sc)). probability_vector dist"
  unfolding predict_3tier_basic_def Let_def
  by (simp only: migration_matrix.select_convs list.set ball_simps case_prod_conv,
      intro conjI pv_full, simp_all)

lemma predict_2tier_simplex:
  "\<forall>(origin, dist) \<in> set (origins (predict_2tier sc)). probability_vector dist"
proof -
  have a: "length (utilities_2tier_as sc) = 4" "utilities_2tier_as sc ! 0 = 0"
    "utilities_2tier_as sc ! 2 = - 999"
    by (simp_all add: utilities_2tier_as_def Let_def)
  have b: "length (utilities_2tier_af sc) = 4" "utilities_2tier_af sc ! 0 = 0"
    "utilities_2tier_af sc ! 1 = - 999"
    by (simp_all add: utilities_2tier_af_def Let_def)
  show ?thesis
    unfolding predict_2tier_def Let_def
    by (simp only: migration_matrix.select_convs list.set ball_simps case_prod_conv,
        intro conjI pv_drop2 [OF a] pv_drop1 [OF b], simp_all)
qed

text \<open>
  Claim C1. For every scenario and every origin tier of the topology selected for it, the
  destination mapping that \<^verbatim>\<open>predict_migration_matrix\<close> returns (the zero entries of the
  destinations outside the topology included) sums to 1 within \<open>1 / 10 ^ 6\<close>, and every entry
  is in \<open>[0, 1]\<close>. In the 2-tier model the slot of the sentinel utility \<open>- 999\<close> is not
  reported, so the sum falls short of 1 by that slot's probability, at most \<open>exp (- 999)\<close>.
\<close>

theorem migration_matrix_simplex:
  "origins (predict_migration_matrix sc) \<noteq> [] \<and>
   (\<forall>(origin, dist) \<in> set (origins (predict_migration_matrix sc)).
      \<bar>sum_list (map snd dist) - 1\<bar> \<le> 1 / 10 ^ 6 \<and>
      (\<forall>(dest, p) \<in> set dist. 0 \<le> p \<and> p \<le> 1))"
proof -
  have ne: "origins (predict_migration_matrix sc) \<noteq> []"
    by (simp add: predict_migration_matrix_def predict_3tier_bundle_def
        predict_3tier_basic_def predict_2tier_def Let_def)
  have "\<forall>(origin, dist) \<in> set (origins (predict_migration_matrix sc)). probability_vector dist"
    using predict_3tier_bundle_simplex [of sc] predict_3tier_basic_simplex [of sc]
      predict_2tier_simplex [of sc]
    by (simp add: predict_migration_matrix_def Let_def)
  with ne show ?thesis unfolding probability_vector_def by blast
qed

theorem migration_matrix_simplex_witness:
  "(let m = predict_migration_matrix empty_scenario; row = hd (origins m)
    in tier_config m = ''2-tier'' \<and> fst row = ''from_ad_supported'' \<and> row \<in> set (origins m) \<and>
       \<bar>sum_list (map snd (snd row)) - 1\<bar> \<le> 1 / 10 ^ 6 \<and>
       (\<forall>(dest, p) \<in> set (snd row). 0 \<le> p \<and> p \<le> 1))"
proof -
  have c: "detect_tier_config empty_scenario = ''2-tier''"
    by (simp add: detect_tier_config_def empty_scenario_def get_or_def lower_def lower_char_def)
  have m: "predict_migration_matrix empty_scenario = predict_2tier empty_scenario"
    by (simp add: predict_migration_matrix_def c)
  have h: "hd (origins (predict_migration_matrix empty_scenario))
             \<in> set (origins (predict_migration_matrix empty_scenario))"
    using migration_matrix_simplex [of empty_scenario] by simp
  show ?thesis
    using migration_matrix_simplex [of empty_scenario] h
    unfolding Let_def
    by (auto simp: m predict_2tier_def Let_def)
qed

subsection \<open>Tier-configuration detection\<close>

lemma lower_BUNDLE: "lower ''BUNDLE'' = ''bundle''"
  by code_simp

lemma lower_BASIC: "lower ''BASIC'' = ''basic''"
  by code_simp

lemma lower_ad_supported: "lower ''ad_supported'' = ''ad_supported''"
  by code_simp

text \<open>
  Claim C2, as amended. The label that \<^verbatim>\<open>detect_tier_config\<close> compares is the tier label
  lower-cased (\<^verbatim>\<open>ad_supported\<close> when the key is absent), and the price is 0 when absent. It
  returns 3-tier-bundle iff that label is \<^verbatim>\<open>bundle\<close> or the price is in \<open>[13.99, 15.99]\<close>;
  otherwise 3-tier-basic iff that label is \<^verbatim>\<open>basic\<close> or the price is in \<open>[1.99, 3.99]\<close>;
  otherwise 2-tier. The prices 13.99 and 15.99 select 3-tier-bundle, and 13.98 with a label
  that is neither of the two selects 2-tier.
\<close>

theorem detect_tier_config_cases:
  "(let label = lower (get_or (tier sc) ''ad_supported'');
        price = get_or (new_price sc) 0;
        bundle = (label = ''bundle'' \<or> (13.99 \<le> price \<and> price \<le> 15.99));
        basic = (label = ''basic'' \<or> (1.99 \<le> price \<and> price \<le> 3.99))
    in (detect_tier_config sc = ''3-tier-bundle'' \<longleftrightarrow> bundle) \<and>
       (detect_tier_config sc = ''3-tier-basic'' \<longleftrightarrow> \<not> bundle \<and> basic) \<and>
       (detect_tier_config sc = ''2-tier'' \<longleftrightarrow> \<not> bundle \<and> \<not> basic) \<and>
       (price = 13.99 \<or> price = 15.99 \<longrightarrow> detect_tier_config sc = ''3-tier-bundle'') \<and>
       (price = 13.98 \<and> label \<noteq> ''bundle'' \<and> label \<noteq> ''basic''
          \<longrightarrow> detect_tier_config sc = ''2-tier''))"
  by (simp add: detect_tier_config_def Let_def)

theorem detect_tier_config_cases_witness:
  "detect_tier_config (empty_scenario\<lparr>new_price := Some 13.99\<rparr>) = ''3-tier-bundle'' \<and>
   detect_tier_config (empty_scenario\<lparr>new_price := Some 15.99\<rparr>) = ''3-tier-bundle'' \<and>
   detect_tier_config (empty_scenario\<lparr>new_price := Some 13.98\<rparr>) = ''2-tier'' \<and>
   detect_tier_config (empty_scenario\<lparr>tier := Some ''basic''\<rparr>) = ''3-tier-basic''"
  using detect_tier_config_cases [of "empty_scenario\<lparr>new_price := Some 13.99\<rparr>"]
    detect_tier_config_cases [of "empty_scenario\<lparr>new_price := Some 15.99\<rparr>"]
    detect_tier_config_cases [of "empty_scenario\<lparr>new_price := Some 13.98\<rparr>"]
    detect_tier_config_cases [of "empty_scenario\<lparr>tier := Some ''basic''\<rparr>"]
  by (simp add: Let_def empty_scenario_def get_or_def lower_ad_supported lower_def lower_char_def)

text \<open>
  Claim C2 as stated compares the tier label itself: the label \<^verbatim>\<open>BUNDLE\<close> is not the
  string \<^verbatim>\<open>bundle\<close> and no price is given, yet 3-tier-bundle is selected; the label
  \<^verbatim>\<open>BASIC\<close> at price 13.98 selects 3-tier-basic, not 2-tier.
\<close>

theorem detect_tier_config_label_counterexample:
  "detect_tier_config (empty_scenario\<lparr>tier := Some ''BUNDLE''\<rparr>) = ''3-tier-bundle'' \<and>
   tier (empty_scenario\<lparr>tier := Some ''BUNDLE''\<rparr>) \<noteq> Some ''bundle'' \<and>
   new_price (empty_scenario\<lparr>tier := Some ''BUNDLE''\<rparr>) = None \<and>
   detect_tier_config (empty_scenario\<lparr>tier := Some ''BASIC'', new_price := Some 13.98\<rparr>)
     = ''3-tier-basic'' \<and>
   tier (empty_scenario\<lparr>tier := Some ''BASIC'', new_price := Some 13.98\<rparr>) \<noteq> Some ''basic'' \<and>
   tier (empty_scenario\<lparr>tier := Some ''BASIC'', new_price := Some 13.98\<rparr>) \<noteq> Some ''bundle''"
  by (simp add: detect_tier_config_def Let_def empty_scenario_def get_or_def
      lower_BUNDLE lower_BASIC)

subsection \<open>Bounds on the exponential at the points of the concrete scenarios\<close>

lemma exp_half_le_2: "exp (1/2 :: real) \<le> 2"
  using exp_bound [of "1/2"] by (simp add: power2_eq_square)

lemma exp_taylor_bound:
  fixes x :: real
  assumes "\<bar>x\<bar> \<le> 1/2"
  shows "\<bar>exp x - (\<Sum>m<n. x ^ m / fact m)\<bar> \<le> 2 * \<bar>x\<bar> ^ n / fact n"
proof -
  obtain t where t: "\<bar>t\<bar> \<le> \<bar>x\<bar>"
    and e: "exp x = (\<Sum>m<n. x ^ m / fact m) + (exp t / fact n) * x ^ n"
    using Maclaurin_exp_le [of x n] by blast
  have "exp t \<le> exp (1/2)" using t assms by simp
  then have t2: "exp t \<le> 2" using exp_half_le_2 by linarith
  have "\<bar>exp x - (\<Sum>m<n. x ^ m / fact m)\<bar> = \<bar>(exp t / fact n) * x ^ n\<bar>"
    using e by simp
  also have "\<dots> = exp t * (\<bar>x\<bar> ^ n / fact n)"
    by (simp add: abs_mult power_abs)
  also have "\<dots> \<le> 2 * (\<bar>x\<bar> ^ n / fact n)"
    using t2 by (intro mult_right_mono) simp_all
  finally show ?thesis by simp
qed

lemma exp_taylor_5:
  fixes x :: real
  assumes "\<bar>x\<bar> \<le> 1/2"
  shows "\<bar>exp x - (1 + x + x^2/2 + x^3/6 + x^4/24)\<bar> \<le> \<bar>x\<bar> ^ 5 / 60"
proof -
  have "(\<Sum>m<5. x ^ m / fact m) = 1 + x + x^2/2 + x^3/6 + x^4/24"
    by (simp add: lessThan_nat_numeral lessThan_Suc fact_numeral)
  then show ?thesis using exp_taylor_bound [OF assms, of 5] by (simp add: fact_numeral)
qed

lemma exp_m162_bounds: "197 / 1000 \<le> exp (- 1.62 :: real) \<and> exp (- 1.62 :: real) \<le> 199 / 1000"
proof -
  define x :: real where "x = - 81 / 200"
  define S where "S = 1 + x + x^2/2 + x^3/6 + x^4/24"
  define R where "R = \<bar>x\<bar> ^ 5 / 60"
  have b: "\<bar>exp x - S\<bar> \<le> R"
    unfolding S_def R_def by (rule exp_taylor_5) (simp add: x_def)
  have S1: "6670 / 10000 \<le> S" and S2: "S \<le> 6671 / 10000"
    unfolding S_def x_def by (simp_all add: power_divide)
  have R1: "R \<le> 2 / 10000"
    unfolding R_def x_def by (simp add: power_divide)
  have lo: "6668 / 10000 \<le> exp x" using b S1 R1 by linarith
  have hi: "exp x \<le> 6673 / 10000" using b S2 R1 by linarith
  have p: "exp (- 1.62 :: real) = exp x ^ 4"
    unfolding x_def by (simp add: exp_of_nat_mult [symmetric])
  have "(6668 / 10000 :: real) ^ 4 \<le> exp x ^ 4" using lo by (intro power_mono) simp_all
  moreover have "exp x ^ 4 \<le> (6673 / 10000 :: real) ^ 4" using hi by (intro power_mono) simp_all
  moreover have "(197 / 1000 :: real) \<le> (6668 / 10000) ^ 4" by (simp add: power_divide)
  moreover have "(6673 / 10000 :: real) ^ 4 \<le> 199 / 1000" by (simp add: power_divide)
  ultimately show ?thesis unfolding p by linarith
qed

lemma exp_m259_bounds: "74 / 1000 \<le> exp (- 2.59 :: real) \<and> exp (- 2.59 :: real) \<le> 76 / 1000"
proof -
  define x :: real where "x = - 259 / 800"
  define S where "S = 1 + x + x^2/2 + x^3/6 + x^4/24"
  define R where "R = \<bar>x\<bar> ^ 5 / 60"
  have b: "\<bar>exp x - S\<bar> \<le> R"
    unfolding S_def R_def by (rule exp_taylor_5) (simp add: x_def)
  have S1: "7234 / 10000 \<le> S" and S2: "S \<le> 7235 / 10000"
    unfolding S_def x_def by (simp_all add: power_divide)
  have R1: "R \<le> 1 / 10000"
    unfolding R_def x_def by (simp add: power_divide)
  have lo: "7233 / 10000 \<le> exp x" using b S1 R1 by linarith
  have hi: "exp x \<le> 7236 / 10000" using b S2 R1 by linarith
  have p: "exp (- 2.59 :: real) = exp x ^ 8"
    unfolding x_def by (simp add: exp_of_nat_mult [symmetric])
  have "(7233 / 10000 :: real) ^ 8 \<le> exp x ^ 8" using lo by (intro power_mono) simp_all
  moreover have "exp x ^ 8 \<le> (7236 / 10000 :: real) ^ 8" using hi by (intro power_mono) simp_all
  moreover have "(74 / 1000 :: real) \<le> (7233 / 10000) ^ 8" by (simp add: power_divide)
  moreover have "(7236 / 10000 :: real) ^ 8 \<le> 76 / 1000" by (simp add: power_divide)
  ultimately show ?thesis unfolding p by linarith
qed


lemma exp_44685_bounds: "862 / 10 \<le> exp (4.4685 :: real) \<and> exp (4.4685 :: real) \<le> 882 / 10"
proof -
  define x :: real where "x = 8937 / 32000"
  define S where "S = 1 + x + x^2/2 + x^3/6 + x^4/24"
  define R where "R = \<bar>x\<bar> ^ 5 / 60"
  have b: "\<bar>exp x - S\<bar> \<le> R"
    unfolding S_def R_def by (rule exp_taylor_5) (simp add: x_def)
  have S1: "132216 / 100000 \<le> S" and S2: "S \<le> 132217 / 100000"
    unfolding S_def x_def by (simp_all add: power_divide)
  have R1: "R \<le> 3 / 100000"
    unfolding R_def x_def by (simp add: power_divide)
  have lo: "132213 / 100000 \<le> exp x" using b S1 R1 by linarith
  have hi: "exp x \<le> 132220 / 100000" using b S2 R1 by linarith
  have p: "exp (4.4685 :: real) = exp x ^ 16"
    unfolding x_def by (simp add: exp_of_nat_mult [symmetric])
  have "(132213 / 100000 :: real) ^ 16 \<le> exp x ^ 16" using lo by (intro power_mono) simp_all
  moreover have "exp x ^ 16 \<le> (132220 / 100000 :: real) ^ 16" using hi by (intro power_mono) simp_all
  moreover have "(862 / 10 :: real) \<le> (132213 / 100000) ^ 16" by (simp add: power_divide)
  moreover have "(132220 / 100000 :: real) ^ 16 \<le> 882 / 10" by (simp add: power_divide)
  ultimately show ?thesis unfolding p by linarith
qed

subsection \<open>The concrete scenarios\<close>

text \<open>
  Claim C7. For the acquisition scenario with \<^verbatim>\<open>new_price\<close> 8.99, no promotion and
  \<^verbatim>\<open>segment_elasticity\<close> -1.8, the linear predictor of \<^verbatim>\<open>predict_acquisition\<close> is
  \<open>6.5 - 0.25 * 8.99 + 0.12 * 1.8\<close>, about 4.469, and the returned \<^verbatim>\<open>predicted_adds\<close> is its
  exponential, within 1 of 87.2.
\<close>

theorem acquisition_concrete_scenario:
  "(let sc = empty_scenario\<lparr>new_price := Some 8.99, segment_elasticity := Some (- 1.8)\<rparr>
    in acq_log_adds sc = 6.5 - 0.25 * 8.99 + 0.12 * 1.8 \<and>
       \<bar>acq_log_adds sc - 4.469\<bar> \<le> 0.001 \<and>
       predicted_adds (predict_acquisition sc) = exp (acq_log_adds sc) \<and>
       \<bar>predicted_adds (predict_acquisition sc) - 87.2\<bar> \<le> 1)"
proof -
  let ?sc = "empty_scenario\<lparr>new_price := Some 8.99, segment_elasticity := Some (- 1.8)\<rparr>"
  have l: "acq_log_adds ?sc = 4.4685"
    by (simp add: acq_log_adds_def acq_promo_features_def empty_scenario_def get_or_def
        ACQUISITION_COEFFICIENTS_def Let_def)
  have p: "predicted_adds (predict_acquisition ?sc) = exp (acq_log_adds ?sc)"
    by (simp add: predict_acquisition_def Let_def)
  have "\<bar>exp (4.4685 :: real) - 87.2\<bar> \<le> 1"
    using exp_44685_bounds by (simp add: abs_le_iff)
  then show ?thesis
    unfolding Let_def p l by simp
qed

lemma softmax_concrete:
  "softmax [0, - 1.62, - 999, - 2.59] =
     (let s = 1 + exp (- 1.62) + exp (- 999) + exp (- 2.59 :: real)
      in [1 / s, exp (- 1.62) / s, exp (- 999) / s, exp (- 2.59) / s])"
  by (simp add: softmax_def Let_def add.assoc)

text \<open>
  Claim C8. For the 2-tier scenario with \<^verbatim>\<open>ad_supported_price\<close> 5.99, \<^verbatim>\<open>ad_free_price\<close> 8.99
  and no promotion (the tenure is the constant 12), the utilities from the ad-supported tier
  are 0 to stay, -1.62 to upgrade, the sentinel -999 for the bundle and -2.59 to cancel, and
  the reported probabilities are within 0.01 of 0.786 (stay), 0.155 (to ad-free), 0.059
  (cancel), with 0 for the bundle.
\<close>

theorem migration_concrete_scenario:
  "(let sc = empty_scenario\<lparr>ad_supported_price := Some 5.99, ad_free_price := Some 8.99\<rparr>
    in utilities_2tier_as sc = [0, - 1.62, - 999, - 2.59] \<and>
       predict_migration_matrix sc = predict_2tier sc \<and>
       (\<exists>stay to_ad_free cancel_p.
          map_of (origins (predict_2tier sc)) ''from_ad_supported'' =
            Some [(''stay'', stay), (''to_ad_free'', to_ad_free), (''to_bundle'', 0),
                  (''to_basic'', 0), (''cancel'', cancel_p)] \<and>
          \<bar>stay - 0.786\<bar> \<le> 0.01 \<and> \<bar>to_ad_free - 0.155\<bar> \<le> 0.01 \<and>
          \<bar>cancel_p - 0.059\<bar> \<le> 0.01))"
proof -
  let ?sc = "empty_scenario\<lparr>ad_supported_price := Some 5.99, ad_free_price := Some 8.99\<rparr>"
  define e1 :: real where "e1 = exp (- 1.62)"
  define e2 :: real where "e2 = exp (- 999)"
  define e3 :: real where "e3 = exp (- 2.59)"
  define s where "s = 1 + e1 + e2 + e3"
  have u: "utilities_2tier_as ?sc = [0, - 1.62, - 999, - 2.59]"
    by (simp add: utilities_2tier_as_def empty_scenario_def get_or_def has_promo_of_def
        promotion_truthy_def avg_tenure_def MIGRATION_COEFFICIENTS_2TIER_def Let_def)
  have c: "detect_tier_config ?sc = ''2-tier''"
    by (simp add: detect_tier_config_def empty_scenario_def get_or_def lower_def lower_char_def)
  have m: "predict_migration_matrix ?sc = predict_2tier ?sc"
    using c by (simp add: predict_migration_matrix_def)
  have sm: "softmax (utilities_2tier_as ?sc) = [1 / s, e1 / s, e2 / s, e3 / s]"
    unfolding u softmax_concrete Let_def e1_def e2_def e3_def s_def by simp
  have b1: "197 / 1000 \<le> e1" "e1 \<le> 199 / 1000"
    using exp_m162_bounds by (simp_all add: e1_def)
  have b3: "74 / 1000 \<le> e3" "e3 \<le> 76 / 1000"
    using exp_m259_bounds by (simp_all add: e3_def)
  have b2: "0 \<le> e2" "e2 \<le> 1 / 1000000"
    using exp_minus_999 by (simp_all add: e2_def)
  have s_lo: "1271 / 1000 \<le> s" and s_hi: "s \<le> 1276 / 1000"
    unfolding s_def using b1 b2 b3 by linarith+
  have s_pos: "0 < s" using s_lo by linarith
  have p0: "\<bar>1 / s - 786 / 1000\<bar> \<le> 1 / 100"
  proof -
    have "776 / 1000 * s \<le> 1" "1 \<le> 796 / 1000 * s" using s_lo s_hi by linarith+
    then have "776 / 1000 \<le> 1 / s" "1 / s \<le> 796 / 1000"
      using s_pos by (simp_all add: pos_le_divide_eq pos_divide_le_eq)
    then show ?thesis by linarith
  qed
  have p1: "\<bar>e1 / s - 155 / 1000\<bar> \<le> 1 / 100"
  proof -
    have "145 / 1000 * s \<le> e1" "e1 \<le> 165 / 1000 * s" using s_lo s_hi b1 by linarith+
    then have "145 / 1000 \<le> e1 / s" "e1 / s \<le> 165 / 1000"
      using s_pos by (simp_all add: pos_le_divide_eq pos_divide_le_eq)
    then show ?thesis by linarith
  qed
  have p3: "\<bar>e3 / s - 59 / 1000\<bar> \<le> 1 / 100"
  proof -
    have "49 / 1000 * s \<le> e3" "e3 \<le> 69 / 1000 * s" using s_lo s_hi b3 by linarith+
    then have "49 / 1000 \<le> e3 / s" "e3 / s \<le> 69 / 1000"
      using s_pos by (simp_all add: pos_le_divide_eq pos_divide_le_eq)
    then show ?thesis by linarith
  qed
  have row: "map_of (origins (predict_2tier ?sc)) ''from_ad_supported'' =
      Some [(''stay'', 1 / s), (''to_ad_free'', e1 / s), (''to_bundle'', 0),
            (''to_basic'', 0), (''cancel'', e3 / s)]"
    using sm by (simp add: predict_2tier_def Let_def)
  have "\<exists>stay to_ad_free cancel_p.
          map_of (origins (predict_2tier ?sc)) ''from_ad_supported'' =
            Some [(''stay'', stay), (''to_ad_free'', to_ad_free), (''to_bundle'', 0),
                  (''to_basic'', 0), (''cancel'', cancel_p)] \<and>
          \<bar>stay - 0.786\<bar> \<le> 0.01 \<and> \<bar>to_ad_free - 0.155\<bar> \<le> 0.01 \<and>
          \<bar>cancel_p - 0.059\<bar> \<le> 0.01"
    using row p0 p1 p3 by (intro exI [of _ "1 / s"] exI [of _ "e1 / s"] exI [of _ "e3 / s"]) simp
  with u m show ?thesis unfolding Let_def by blast
qed

subsection \<open>Repeat loss by horizon\<close>

lemma logistic_pos: "0 < logistic x"
  by (simp add: logistic_def add_pos_pos)

lemma logistic_mono: "x \<le> y \<Longrightarrow> logistic x \<le> logistic y"
  unfolding logistic_def by (intro divide_left_mono) (simp_all add: add_pos_pos)

text \<open>
  Claim C6. For every scenario with a positive \<^verbatim>\<open>price_change_pct\<close>, the uplift that
  \<^verbatim>\<open>predict_repeat_loss_by_horizon\<close> returns at the horizon \<^verbatim>\<open>8-12 Weeks\<close> is at least the
  uplift at \<^verbatim>\<open>0-4 Weeks\<close>; the same baseline is subtracted from both.
\<close>

theorem repeat_loss_peak_uplift:
  assumes "price_change_pct sc = Some p" and "0 < p"
  shows "\<exists>late early.
           map_of (predict_repeat_loss_by_horizon sc) ''8-12 Weeks'' = Some late \<and>
           map_of (predict_repeat_loss_by_horizon sc) ''0-4 Weeks'' = Some early \<and>
           repeat_loss_uplift early \<le> repeat_loss_uplift late"
proof -
  let ?b = "get_or (baseline_repeat_loss sc) 0.05"
  have late: "map_of (predict_repeat_loss_by_horizon sc) ''8-12 Weeks''
                = Some (horizon_result p ?b (price_x_8_12wks REPEAT_LOSS_COEFFICIENTS))"
    by (simp add: predict_repeat_loss_by_horizon_def Let_def assms(1) get_or_def)
  have early: "map_of (predict_repeat_loss_by_horizon sc) ''0-4 Weeks''
                = Some (horizon_result p ?b (price_x_0_4wks REPEAT_LOSS_COEFFICIENTS))"
    by (simp add: predict_repeat_loss_by_horizon_def Let_def assms(1) get_or_def)
  have "price_x_0_4wks REPEAT_LOSS_COEFFICIENTS * p \<le> price_x_8_12wks REPEAT_LOSS_COEFFICIENTS * p"
    using assms(2) by (simp add: REPEAT_LOSS_COEFFICIENTS_def)
  then have "repeat_loss_uplift (horizon_result p ?b (price_x_0_4wks REPEAT_LOSS_COEFFICIENTS))
      \<le> repeat_loss_uplift (horizon_result p ?b (price_x_8_12wks REPEAT_LOSS_COEFFICIENTS))"
    by (simp add: horizon_result_def Let_def logistic_mono)
  with late early show ?thesis by blast
qed

theorem repeat_loss_peak_uplift_witness:
  "price_change_pct (empty_scenario\<lparr>price_change_pct := Some 16\<rparr>) = Some 16 \<and> (0::real) < 16 \<and>
   (\<exists>late early.
      map_of (predict_repeat_loss_by_horizon (empty_scenario\<lparr>price_change_pct := Some 16\<rparr>))
        ''8-12 Weeks'' = Some late \<and>
      map_of (predict_repeat_loss_by_horizon (empty_scenario\<lparr>price_change_pct := Some 16\<rparr>))
        ''0-4 Weeks'' = Some early \<and>
      repeat_loss_uplift early \<le> repeat_loss_uplift late)"
  using repeat_loss_peak_uplift [of "empty_scenario\<lparr>price_change_pct := Some 16\<rparr>" 16]
  by simp


subsection \<open>Defaults of absent fields\<close>

lemma acq_log_adds_new_price_default:
  "acq_log_adds (sc\<lparr>new_price := None\<rparr>) = acq_log_adds (sc\<lparr>new_price := Some 8.99\<rparr>)"
  by (simp add: acq_log_adds_def acq_promo_features_def get_or_def Let_def)

lemma predict_acquisition_new_price_default:
  "predict_acquisition (sc\<lparr>new_price := None\<rparr>) = predict_acquisition (sc\<lparr>new_price := Some 8.99\<rparr>)"
  by (simp add: predict_acquisition_def acq_log_adds_new_price_default Let_def get_or_def)

lemma predict_acquisition_segment_elasticity_default:
  "predict_acquisition (sc\<lparr>segment_elasticity := None\<rparr>)
     = predict_acquisition (sc\<lparr>segment_elasticity := Some (- 1.8)\<rparr>)"
  by (simp add: predict_acquisition_def acq_log_adds_def acq_promo_features_def get_or_def Let_def)

lemma acquisition_for_segment_new_price_default:
  "acquisition_for_segment (sc\<lparr>new_price := None\<rparr>) seg
     = acquisition_for_segment (sc\<lparr>new_price := Some 8.99\<rparr>) seg"
proof -
  have "predict_acquisition (sc\<lparr>new_price := None, segment_elasticity := e\<rparr>)
          = predict_acquisition (sc\<lparr>new_price := Some 8.99, segment_elasticity := e\<rparr>)" for e
    by (simp add: predict_acquisition_def acq_log_adds_def acq_promo_features_def get_or_def Let_def)
  then show ?thesis
    by (simp add: acquisition_for_segment_def Let_def split: sum.splits)
qed

lemma predict_acquisition_by_segment_new_price_default:
  "predict_acquisition_by_segment (sc\<lparr>new_price := None\<rparr>) segs
     = predict_acquisition_by_segment (sc\<lparr>new_price := Some 8.99\<rparr>) segs"
  by (induction segs) (simp_all add: acquisition_for_segment_new_price_default split: sum.splits)

lemma predict_acquisition_by_segment_baseline_default:
  "predict_acquisition_by_segment (sc\<lparr>baseline_repeat_loss := None\<rparr>) segs
     = predict_acquisition_by_segment (sc\<lparr>baseline_repeat_loss := Some 0.05\<rparr>) segs"
  by (induction segs)
    (simp_all add: acquisition_for_segment_def predict_acquisition_def acq_log_adds_def
      acq_promo_features_def Let_def split: sum.splits)

lemma predict_repeat_loss_by_horizon_baseline_default:
  "predict_repeat_loss_by_horizon (sc\<lparr>baseline_repeat_loss := None\<rparr>)
     = predict_repeat_loss_by_horizon (sc\<lparr>baseline_repeat_loss := Some 0.05\<rparr>)"
  by (simp add: predict_repeat_loss_by_horizon_def get_or_def Let_def)

lemma predict_repeat_loss_by_segment_baseline_default:
  "predict_repeat_loss_by_segment (sc\<lparr>baseline_repeat_loss := None\<rparr>) segs
     = predict_repeat_loss_by_segment (sc\<lparr>baseline_repeat_loss := Some 0.05\<rparr>) segs"
  by (induction segs)
    (simp_all add: repeat_loss_for_segment_def predict_repeat_loss_by_horizon_baseline_default
      split: sum.splits)

lemma predict_repeat_loss_by_segment_new_price_default:
  "predict_repeat_loss_by_segment (sc\<lparr>new_price := None\<rparr>) segs
     = predict_repeat_loss_by_segment (sc\<lparr>new_price := Some 8.99\<rparr>) segs"
  by (induction segs)
    (simp_all add: repeat_loss_for_segment_def predict_repeat_loss_by_horizon_def
      split: sum.splits)

lemma detect_tier_config_new_price_default:
  "detect_tier_config (sc\<lparr>new_price := None\<rparr>) = detect_tier_config (sc\<lparr>new_price := Some 8.99\<rparr>)"
  by (simp add: detect_tier_config_def get_or_def Let_def)

lemma tier_models_ignore_new_price:
  "predict_3tier_bundle (sc\<lparr>new_price := v\<rparr>) = predict_3tier_bundle sc"
  "predict_3tier_basic (sc\<lparr>new_price := v\<rparr>) = predict_3tier_basic sc"
  "predict_2tier (sc\<lparr>new_price := v\<rparr>) = predict_2tier sc"
  by (simp_all add: predict_3tier_bundle_def predict_3tier_basic_def predict_2tier_def
      utilities_2tier_as_def utilities_2tier_af_def has_promo_of_def)

lemma tier_models_ignore_baseline:
  "predict_3tier_bundle (sc\<lparr>baseline_repeat_loss := v\<rparr>) = predict_3tier_bundle sc"
  "predict_3tier_basic (sc\<lparr>baseline_repeat_loss := v\<rparr>) = predict_3tier_basic sc"
  "predict_2tier (sc\<lparr>baseline_repeat_loss := v\<rparr>) = predict_2tier sc"
  "detect_tier_config (sc\<lparr>baseline_repeat_loss := v\<rparr>) = detect_tier_config sc"
  by (simp_all add: predict_3tier_bundle_def predict_3tier_basic_def predict_2tier_def
      utilities_2tier_as_def utilities_2tier_af_def has_promo_of_def detect_tier_config_def)

lemma predict_migration_matrix_new_price_default:
  "predict_migration_matrix (sc\<lparr>new_price := None\<rparr>)
     = predict_migration_matrix (sc\<lparr>new_price := Some 8.99\<rparr>)"
  unfolding predict_migration_matrix_def tier_models_ignore_new_price
    detect_tier_config_new_price_default ..

lemma predict_migration_matrix_baseline_default:
  "predict_migration_matrix (sc\<lparr>baseline_repeat_loss := None\<rparr>)
     = predict_migration_matrix (sc\<lparr>baseline_repeat_loss := Some 0.05\<rparr>)"
  unfolding predict_migration_matrix_def tier_models_ignore_baseline ..

lemma repeat_loss_for_segment_elasticity_default:
  "repeat_loss_for_segment sc seg
     = repeat_loss_for_segment sc (seg\<lparr>elasticity := Some (get_or (elasticity seg) (- 2.0))\<rparr>)"
  by (simp add: repeat_loss_for_segment_def get_or_def split: sum.splits)

lemma predict_repeat_loss_by_segment_elasticity_default:
  "predict_repeat_loss_by_segment sc segs
     = predict_repeat_loss_by_segment sc
         (map (\<lambda>seg. seg\<lparr>elasticity := Some (get_or (elasticity seg) (- 2.0))\<rparr>) segs)"
proof (induction segs)
  case Nil
  then show ?case by simp
next
  case (Cons seg segs)
  show ?case
    using Cons.IH repeat_loss_for_segment_elasticity_default [of sc seg]
    by (simp split: sum.splits)
qed

text \<open>
  Claim C5, as amended. An absent optional field is not an error and takes the default of
  the code: at every prediction entry point a scenario without \<^verbatim>\<open>new_price\<close> behaves as
  with \<^verbatim>\<open>new_price\<close> 8.99 and a scenario without \<^verbatim>\<open>baseline_repeat_loss\<close> as with 0.05;
  in \<^verbatim>\<open>predict_acquisition\<close> a scenario without \<^verbatim>\<open>segment_elasticity\<close> behaves as with
  -1.8; in \<^verbatim>\<open>predict_repeat_loss_by_segment\<close> a segment without \<^verbatim>\<open>elasticity\<close> behaves
  as with elasticity -2.0.
\<close>

theorem missing_field_defaults:
  "predict_acquisition (sc\<lparr>new_price := None\<rparr>)
     = predict_acquisition (sc\<lparr>new_price := Some 8.99\<rparr>) \<and>
   predict_acquisition_by_segment (sc\<lparr>new_price := None\<rparr>) segs
     = predict_acquisition_by_segment (sc\<lparr>new_price := Some 8.99\<rparr>) segs \<and>
   predict_repeat_loss_by_horizon (sc\<lparr>new_price := None\<rparr>)
     = predict_repeat_loss_by_horizon (sc\<lparr>new_price := Some 8.99\<rparr>) \<and>
   predict_repeat_loss_by_segment (sc\<lparr>new_price := None\<rparr>) segs
     = predict_repeat_loss_by_segment (sc\<lparr>new_price := Some 8.99\<rparr>) segs \<and>
   predict_migration_matrix (sc\<lparr>new_price := None\<rparr>)
     = predict_migration_matrix (sc\<lparr>new_price := Some 8.99\<rparr>) \<and>
   predict_acquisition (sc\<lparr>baseline_repeat_loss := None\<rparr>)
     = predict_acquisition (sc\<lparr>baseline_repeat_loss := Some 0.05\<rparr>) \<and>
   predict_acquisition_by_segment (sc\<lparr>baseline_repeat_loss := None\<rparr>) segs
     = predict_acquisition_by_segment (sc\<lparr>baseline_repeat_loss := Some 0.05\<rparr>) segs \<and>
   predict_repeat_loss_by_horizon (sc\<lparr>baseline_repeat_loss := None\<rparr>)
     = predict_repeat_loss_by_horizon (sc\<lparr>baseline_repeat_loss := Some 0.05\<rparr>) \<and>
   predict_repeat_loss_by_segment (sc\<lparr>baseline_repeat_loss := None\<rparr>) segs
     = predict_repeat_loss_by_segment (sc\<lparr>baseline_repeat_loss := Some 0.05\<rparr>) segs \<and>
   predict_migration_matrix (sc\<lparr>baseline_repeat_loss := None\<rparr>)
     = predict_migration_matrix (sc\<lparr>baseline_repeat_loss := Some 0.05\<rparr>) \<and>
   predict_acquisition (sc\<lparr>segment_elasticity := None\<rparr>)
     = predict_acquisition (sc\<lparr>segment_elasticity := Some (- 1.8)\<rparr>) \<and>
   predict_repeat_loss_by_segment sc segs
     = predict_repeat_loss_by_segment sc
         (map (\<lambda>seg. seg\<lparr>elasticity := Some (get_or (elasticity seg) (- 2.0))\<rparr>) segs)"
proof -
  have "predict_repeat_loss_by_horizon (sc\<lparr>new_price := None\<rparr>)
     = predict_repeat_loss_by_horizon (sc\<lparr>new_price := Some 8.99\<rparr>)"
    by (simp add: predict_repeat_loss_by_horizon_def)
  moreover have "predict_acquisition (sc\<lparr>baseline_repeat_loss := None\<rparr>)
     = predict_acquisition (sc\<lparr>baseline_repeat_loss := Some 0.05\<rparr>)"
    by (simp add: predict_acquisition_def acq_log_adds_def acq_promo_features_def Let_def)
  ultimately show ?thesis
    using predict_acquisition_new_price_default [of sc]
      predict_acquisition_by_segment_new_price_default [of sc segs]
      predict_repeat_loss_by_segment_new_price_default [of sc segs]
      predict_migration_matrix_new_price_default [of sc]
      predict_acquisition_by_segment_baseline_default [of sc segs]
      predict_repeat_loss_by_horizon_baseline_default [of sc]
      predict_repeat_loss_by_segment_baseline_default [of sc segs]
      predict_migration_matrix_baseline_default [of sc]
      predict_acquisition_segment_elasticity_default [of sc]
      predict_repeat_loss_by_segment_elasticity_default [of sc segs]
    by (intro conjI)
qed

text \<open>
  Claim C5 as stated gives -1.8 as the default elasticity of a segment at every entry
  point: in \<^verbatim>\<open>predict_repeat_loss_by_segment\<close> a segment without \<^verbatim>\<open>elasticity\<close> does not
  behave as the same segment with elasticity -1.8 (the multiplier is 1.0, not 0.97).
\<close>

theorem segment_elasticity_default_counterexample:
  "predict_repeat_loss_by_segment (empty_scenario\<lparr>baseline_repeat_loss := Some 0\<rparr>)
       [example_segment]
     \<noteq> predict_repeat_loss_by_segment (empty_scenario\<lparr>baseline_repeat_loss := Some 0\<rparr>)
       [example_segment\<lparr>elasticity := Some (- 1.8)\<rparr>]"
proof -
  let ?sc = "empty_scenario\<lparr>baseline_repeat_loss := Some 0\<rparr>"
  define L where "L = logistic (rl_intercept REPEAT_LOSS_COEFFICIENTS)"
  have L: "0 < L" unfolding L_def by (rule logistic_pos)
  have h: "predict_repeat_loss_by_horizon ?sc =
      map (\<lambda>k. (k, \<lparr> repeat_loss_rate = L, repeat_loss_uplift = L, repeat_loss_uplift_pp = L * 100 \<rparr>))
        [''0-4 Weeks'', ''4-8 Weeks'', ''8-12 Weeks'', ''12+ Weeks'']"
    by (simp add: predict_repeat_loss_by_horizon_def horizon_result_def empty_scenario_def
        get_or_def Let_def L_def)
  have a: "map snd (sr_repeat_loss (hd (projr (predict_repeat_loss_by_segment ?sc [example_segment]))))
             = [L * 100, L * 100, L * 100, L * 100]"
    by (simp add: repeat_loss_for_segment_def h example_segment_def subscript_def get_or_def Let_def)
  have b: "map snd (sr_repeat_loss (hd (projr (predict_repeat_loss_by_segment ?sc
               [example_segment\<lparr>elasticity := Some (- 1.8)\<rparr>]))))
             = [L * 97, L * 97, L * 97, L * 97]"
    by (simp add: repeat_loss_for_segment_def h example_segment_def subscript_def get_or_def Let_def)
  have "[L * 100, L * 100, L * 100, L * 100] \<noteq> [L * 97, L * 97, L * 97, L * 97]"
    using L by simp
  with a b show ?thesis by metis
qed

text \<open>
  In \<^verbatim>\<open>predict_acquisition_by_segment\<close> the elasticity of a segment is read with the default
  -1.8 for the scenario and then with \<^verbatim>\<open>segment['elasticity']\<close> for the lifts, which raises
  for a segment without the key.
\<close>

lemma acquisition_by_segment_missing_elasticity:
  "predict_acquisition_by_segment empty_scenario [example_segment] = Inl (KeyError ''elasticity'')"
  by (simp add: acquisition_for_segment_def example_segment_def subscript_def Let_def)

subsection \<open>Profile weights\<close>

lemma incr_keys [simp]: "map fst (incr k v ws) = map fst ws"
  by (induction ws) (auto simp: incr_def)

lemma incr_sum:
  "distinct (map fst ws) \<Longrightarrow> k \<in> set (map fst ws) \<Longrightarrow>
     sum_list (map snd (incr k v ws)) = sum_list (map snd ws) + v"
proof (induction ws)
  case Nil
  then show ?case by simp
next
  case (Cons x ws)
  obtain p w where x: "x = (p, w)" by (cases x)
  show ?case
  proof (cases "p = k")
    case True
    then have "k \<notin> set (map fst ws)" using Cons.prems(1) x by simp
    then have "incr k v ws = ws"
      by (induction ws) (auto simp: incr_def)
    then show ?thesis using True x by (simp add: incr_def)
  next
    case False
    then have "k \<in> set (map fst ws)" using Cons.prems(2) x by auto
    moreover have "distinct (map fst ws)" using Cons.prems(1) by simp
    ultimately have "sum_list (map snd (incr k v ws)) = sum_list (map snd ws) + v"
      by (rule Cons.IH [rotated])
    then show ?thesis using False x by (simp add: incr_def)
  qed
qed

lemma incr_nonneg:
  "0 \<le> v \<Longrightarrow> \<forall>(p, w) \<in> set ws. 0 \<le> w \<Longrightarrow> \<forall>(p, w) \<in> set (incr k v ws). 0 \<le> w"
  by (fastforce simp: incr_def split: if_splits)

lemma fold_incr_keys [simp]: "map fst (fold (\<lambda>(k, v). incr k v) cs ws) = map fst ws"
  by (induction cs arbitrary: ws) (auto simp: case_prod_beta)

lemma fold_incr_sum:
  "distinct (map fst ws) \<Longrightarrow> set (map fst cs) \<subseteq> set (map fst ws) \<Longrightarrow>
     sum_list (map snd (fold (\<lambda>(k, v). incr k v) cs ws))
       = sum_list (map snd ws) + sum_list (map snd cs)"
proof (induction cs arbitrary: ws)
  case Nil
  then show ?case by simp
next
  case (Cons c cs)
  obtain k v where c: "c = (k, v)" by (cases c)
  have d: "distinct (map fst (incr k v ws))" using Cons.prems(1) by simp
  have s: "set (map fst cs) \<subseteq> set (map fst (incr k v ws))" using Cons.prems(2) by simp
  have k: "k \<in> set (map fst ws)" using Cons.prems(2) c by simp
  show ?case
    using Cons.IH [OF d s] incr_sum [OF Cons.prems(1) k, of v] c by simp
qed

lemma fold_incr_nonneg:
  "\<forall>(k, v) \<in> set cs. 0 \<le> v \<Longrightarrow> \<forall>(p, w) \<in> set ws. 0 \<le> w \<Longrightarrow>
     \<forall>(p, w) \<in> set (fold (\<lambda>(k, v). incr k v) cs ws). 0 \<le> w"
proof (induction cs arbitrary: ws)
  case Nil
  then show ?case by simp
next
  case (Cons c cs)
  obtain k v where c: "c = (k, v)" by (cases c)
  have "0 \<le> v" using Cons.prems(1) c by simp
  then have "\<forall>(p, w) \<in> set (incr k v ws). 0 \<le> w" using Cons.prems(2) by (rule incr_nonneg)
  moreover have "\<forall>(k, v) \<in> set cs. 0 \<le> v" using Cons.prems(1) by simp
  ultimately show ?case using Cons.IH c by simp
qed

lemma valid_contributions_literals:
  "valid_contributions []"
  "valid_contributions [(''ultra_loyal'', 0.6), (''content_driven'', 0.2), (''value_conscious'', 0.2)]"
  "valid_contributions [(''content_driven'', 0.6), (''ultra_loyal'', 0.25), (''value_conscious'', 0.15)]"
  "valid_contributions [(''at_risk'', 0.7), (''value_conscious'', 0.2), (''tier_flexible'', 0.1)]"
  "valid_contributions [(''deal_hunter'', 0.7), (''value_conscious'', 0.3)]"
  "valid_contributions [(''at_risk'', 0.6), (''deal_hunter'', 0.25), (''value_conscious'', 0.15)]"
  "valid_contributions [(''value_conscious'', 0.5), (''deal_hunter'', 0.3), (''tier_flexible'', 0.2)]"
  "valid_contributions [(''tier_flexible'', 0.4), (''value_conscious'', 0.3), (''premium_seeker'', 0.3)]"
  "valid_contributions [(''premium_seeker'', 0.6), (''ultra_loyal'', 0.4)]"
  "valid_contributions [(''tier_flexible'', 0.5), (''deal_hunter'', 0.3), (''at_risk'', 0.2)]"
  "valid_contributions [(''content_driven'', 0.5), (''premium_seeker'', 0.3), (''value_conscious'', 0.2)]"
  "valid_contributions [(''ultra_loyal'', 0.4), (''value_conscious'', 0.4), (''premium_seeker'', 0.2)]"
  "valid_contributions [(''content_driven'', 0.5), (''ultra_loyal'', 0.3), (''premium_seeker'', 0.2)]"
  "valid_contributions [(''content_driven'', 0.6), (''value_conscious'', 0.25), (''ultra_loyal'', 0.15)]"
  "valid_contributions [(''deal_hunter'', 0.6), (''value_conscious'', 0.3), (''tier_flexible'', 0.1)]"
  "valid_contributions [(''value_conscious'', 0.6), (''tier_flexible'', 0.25), (''deal_hunter'', 0.15)]"
  by (simp_all add: valid_contributions_def initial_weights_def)

lemma acquisition_axis_mapping_valid: "valid_contributions (acquisition_axis_mapping a)"
  unfolding acquisition_axis_mapping_def
  by (simp only: valid_contributions_literals if_split simp_thms)

lemma engagement_axis_mapping_valid: "valid_contributions (engagement_axis_mapping a)"
  unfolding engagement_axis_mapping_def
  by (simp only: valid_contributions_literals if_split simp_thms)

lemma monetization_axis_mapping_valid: "valid_contributions (monetization_axis_mapping a)"
  unfolding monetization_axis_mapping_def
  by (simp only: valid_contributions_literals if_split simp_thms)


lemma initial_weights_facts:
  "distinct (map fst initial_weights)"
  "sum_list (map snd initial_weights) = 0"
  "\<forall>(p, w) \<in> set initial_weights. 0 \<le> w"
  by (simp_all add: initial_weights_def)

lemma contributions_facts:
  "set (map fst (contributions a e m)) \<subseteq> set (map fst initial_weights)"
  "\<forall>(k, v) \<in> set (contributions a e m). 0 < v"
  "sum_list (map snd (contributions a e m)) =
     (if acquisition_axis_mapping a = [] then 0 else 1)
     + (if engagement_axis_mapping e = [] then 0 else 1)
     + (if monetization_axis_mapping m = [] then 0 else 1)"
  using acquisition_axis_mapping_valid [of a] engagement_axis_mapping_valid [of e]
    monetization_axis_mapping_valid [of m]
  unfolding contributions_def valid_contributions_def by auto

lemma accumulated_weights_keys: "map fst (accumulated_weights a e m) = map fst initial_weights"
  by (simp add: accumulated_weights_def)

lemma accumulated_weights_sum:
  "sum_list (map snd (accumulated_weights a e m)) = sum_list (map snd (contributions a e m))"
  unfolding accumulated_weights_def
  using fold_incr_sum [OF initial_weights_facts(1) contributions_facts(1), of a e m]
  by (simp add: initial_weights_facts(2))

lemma accumulated_weights_nonneg: "\<forall>(p, w) \<in> set (accumulated_weights a e m). 0 \<le> w"
proof -
  have "\<forall>(k, v) \<in> set (contributions a e m). 0 \<le> v"
    using contributions_facts(2) [of a e m] by fastforce
  then show ?thesis
    unfolding accumulated_weights_def
    by (rule fold_incr_nonneg) (rule initial_weights_facts(3))
qed

lemma accumulated_total_zero_iff:
  "sum_list (map snd (accumulated_weights a e m)) = 0 \<longleftrightarrow> contributions a e m = []"
  unfolding accumulated_weights_sum contributions_facts(3)
  by (auto simp: contributions_def)

lemma accumulated_total_nonneg: "0 \<le> sum_list (map snd (accumulated_weights a e m))"
  unfolding accumulated_weights_sum contributions_facts(3) by simp

lemma sum_list_normalise:
  fixes c :: real
  shows "sum_list (map snd (map (\<lambda>(p, w). (p, w / c)) ws)) = sum_list (map snd ws) / c"
  by (induction ws) (auto simp: add_divide_distrib)

lemma weight_le_total:
  fixes ws :: "(string \<times> real) list"
  assumes "\<forall>(p, w) \<in> set ws. 0 \<le> w" and "(p, w) \<in> set ws"
  shows "w \<le> sum_list (map snd ws)"
  using assms
proof (induction ws)
  case Nil
  then show ?case by simp
next
  case (Cons x ws)
  obtain q u where x: "x = (q, u)" by (cases x)
  have nn: "\<forall>(p, w) \<in> set ws. 0 \<le> w" using Cons.prems(1) by simp
  have u: "0 \<le> u" using Cons.prems(1) x by simp
  have rest: "0 \<le> sum_list (map snd ws)"
    using nn by (intro sum_list_nonneg) auto
  show ?case
  proof (cases "(p, w) = x")
    case True
    then show ?thesis using rest x by simp
  next
    case False
    then have "(p, w) \<in> set ws" using Cons.prems(2) by simp
    then have "w \<le> sum_list (map snd ws)" using Cons.IH nn by blast
    then show ?thesis using u x by simp
  qed
qed

text \<open>
  Claim C3. For every combination of the three segment-axis values in which at least one
  axis value contributes a positive partial weight to some archetype, the mapping that
  \<^verbatim>\<open>get_profile_weights\<close> returns has every weight in \<open>[0, 1]\<close> and the weights sum to 1
  within \<open>1 / 10 ^ 9\<close>; its keys are the seven archetypes.
\<close>

theorem profile_weights_normalised:
  assumes "\<exists>(k, v) \<in> set (contributions acq eng mon). 0 < v"
  shows "\<exists>weights. get_profile_weights acq eng mon = Inr weights \<and>
           map fst weights = map fst initial_weights \<and>
           (\<forall>(p, w) \<in> set weights. 0 \<le> w \<and> w \<le> 1) \<and>
           \<bar>sum_list (map snd weights) - 1\<bar> \<le> 1 / 10 ^ 9"
proof -
  let ?acc = "accumulated_weights acq eng mon"
  let ?total = "sum_list (map snd ?acc)"
  let ?ws = "map (\<lambda>(p, w). (p, w / ?total)) ?acc"
  have "contributions acq eng mon \<noteq> []" using assms by auto
  then have "?total \<noteq> 0" by (simp add: accumulated_total_zero_iff)
  then have pos: "0 < ?total" using accumulated_total_nonneg [of acq eng mon] by linarith
  have r: "get_profile_weights acq eng mon = Inr ?ws"
    using pos by (simp add: get_profile_weights_def Let_def)
  have k: "map fst ?ws = map fst initial_weights"
    using accumulated_weights_keys [of acq eng mon] by (simp add: case_prod_beta comp_def)
  have s: "sum_list (map snd ?ws) = 1"
    unfolding sum_list_normalise using pos by simp
  have b: "\<forall>(p, w) \<in> set ?ws. 0 \<le> w \<and> w \<le> 1"
  proof -
    have "0 \<le> w / ?total \<and> w / ?total \<le> 1" if "(p, w) \<in> set ?acc" for p w
    proof -
      have "0 \<le> w" using accumulated_weights_nonneg [of acq eng mon] that by auto
      moreover have "w \<le> ?total"
        using weight_le_total [OF accumulated_weights_nonneg that] .
      ultimately show ?thesis using pos by simp
    qed
    then show ?thesis by auto
  qed
  show ?thesis using r k s b by (intro exI [of _ ?ws]) simp
qed

theorem profile_weights_normalised_witness:
  "(\<exists>(k, v) \<in> set (contributions ''habitual_streamers'' ''unknown'' ''unknown''). 0 < v) \<and>
   (\<exists>weights. get_profile_weights ''habitual_streamers'' ''unknown'' ''unknown'' = Inr weights \<and>
      map fst weights = map fst initial_weights \<and>
      (\<forall>(p, w) \<in> set weights. 0 \<le> w \<and> w \<le> 1) \<and>
      \<bar>sum_list (map snd weights) - 1\<bar> \<le> 1 / 10 ^ 9)"
proof -
  have h: "\<exists>(k, v) \<in> set (contributions ''habitual_streamers'' ''unknown'' ''unknown''). 0 < v"
    by (simp add: contributions_def acquisition_axis_mapping_def)
  show ?thesis using h profile_weights_normalised [OF h] by blast
qed

text \<open>
  Claim C4, as amended. For every combination of the three segment-axis values whose
  accumulated total is zero, \<^verbatim>\<open>get_profile_weights\<close> does not fail: the guard
  \<^verbatim>\<open>if total > 0\<close> skips the normalisation and the function returns the mapping in which
  every archetype has weight 0.
\<close>

theorem zero_total_returns_zero_weights:
  assumes "sum_list (map snd (accumulated_weights acq eng mon)) = 0"
  shows "get_profile_weights acq eng mon = Inr initial_weights \<and>
         (\<forall>(p, w) \<in> set initial_weights. w = 0)"
proof -
  have "contributions acq eng mon = []"
    using assms by (simp add: accumulated_total_zero_iff)
  then have "accumulated_weights acq eng mon = initial_weights"
    by (simp add: accumulated_weights_def)
  then show ?thesis
    using assms by (simp add: get_profile_weights_def Let_def initial_weights_def)
qed

theorem zero_total_returns_zero_weights_witness:
  "sum_list (map snd (accumulated_weights ''unknown'' ''unknown'' ''unknown'')) = 0 \<and>
   get_profile_weights ''unknown'' ''unknown'' ''unknown'' = Inr initial_weights \<and>
   set (map snd initial_weights) = {0}"
proof -
  have c: "contributions ''unknown'' ''unknown'' ''unknown'' = []"
    by (simp add: contributions_def acquisition_axis_mapping_def engagement_axis_mapping_def
        monetization_axis_mapping_def)
  have h: "sum_list (map snd (accumulated_weights ''unknown'' ''unknown'' ''unknown'')) = 0"
    by (simp add: accumulated_weights_def c initial_weights_def)
  have "set (map snd initial_weights) = {0}"
    by (simp add: initial_weights_def)
  then show ?thesis using h zero_total_returns_zero_weights [OF h] by blast
qed

text \<open>
  Claim C4 as stated has the weight construction reject such an input: for three axis
  values that no branch recognises the total is zero and the function returns.
\<close>

theorem zero_total_not_rejected_counterexample:
  "sum_list (map snd (accumulated_weights ''unknown'' ''unknown'' ''unknown'')) = 0 \<and>
   \<not> isl (get_profile_weights ''unknown'' ''unknown'' ''unknown'') \<and>
   get_profile_weights ''unknown'' ''unknown'' ''unknown'' =
     Inr [(''ultra_loyal'', 0), (''value_conscious'', 0), (''deal_hunter'', 0),
          (''content_driven'', 0), (''tier_flexible'', 0), (''premium_seeker'', 0),
          (''at_risk'', 0)]"
proof -
  have c: "contributions ''unknown'' ''unknown'' ''unknown'' = []"
    by (simp add: contributions_def acquisition_axis_mapping_def engagement_axis_mapping_def
        monetization_axis_mapping_def)
  show ?thesis
    by (simp add: get_profile_weights_def accumulated_weights_def c initial_weights_def Let_def)
qed

subsection \<open>Blended time-lag distribution\<close>

lemma catalog_time_lag:
  "\<forall>(k, pr) \<in> set ELASTICITY_PROFILES.
     time_lag_nonneg (time_lag_distribution pr) \<and> time_lag_total (time_lag_distribution pr) = 1"
  by (simp add: ELASTICITY_PROFILES_def time_lag_nonneg_def time_lag_total_def)

lemma lookup_profile_InrD: "lookup_profile p = Inr pr \<Longrightarrow> (p, pr) \<in> set ELASTICITY_PROFILES"
  by (auto simp: lookup_profile_def split: option.splits dest: map_of_SomeD)

lemma lookup_profile_known:
  assumes "p \<in> fst ` set ELASTICITY_PROFILES"
  shows "\<exists>pr. lookup_profile p = Inr pr"
proof -
  have "map_of ELASTICITY_PROFILES p \<noteq> None"
    using assms by (simp add: map_of_eq_None_iff)
  then show ?thesis by (auto simp: lookup_profile_def split: option.splits)
qed

lemma mix_known:
  "\<forall>(p, w) \<in> set pw. p \<in> fst ` set ELASTICITY_PROFILES \<Longrightarrow> \<exists>s. mix field pw = Inr s"
proof (induction pw)
  case Nil
  then show ?case by simp
next
  case (Cons x pw)
  obtain p w where x: "x = (p, w)" by (cases x)
  obtain pr where pr: "lookup_profile p = Inr pr"
    using lookup_profile_known [of p] Cons.prems x by auto
  obtain s where s: "mix field pw = Inr s" using Cons by auto
  show ?case by (simp add: x pr s)
qed

lemma add_time_lag_total:
  "time_lag_total (add_time_lag acc d w) = time_lag_total acc + time_lag_total d * w"
  by (simp add: add_time_lag_def time_lag_total_def algebra_simps)

lemma add_time_lag_nonneg:
  "time_lag_nonneg acc \<Longrightarrow> time_lag_nonneg d \<Longrightarrow> 0 \<le> w \<Longrightarrow> time_lag_nonneg (add_time_lag acc d w)"
  by (simp add: add_time_lag_def time_lag_nonneg_def)

lemma blend_time_lag_known:
  assumes "\<forall>(p, w) \<in> set pw. p \<in> fst ` set ELASTICITY_PROFILES \<and> 0 \<le> w"
    and "time_lag_nonneg acc"
  shows "\<exists>d. blend_time_lag acc pw = Inr d \<and> time_lag_nonneg d \<and>
              time_lag_total d = time_lag_total acc + sum_list (map snd pw)"
  using assms
proof (induction pw arbitrary: acc)
  case Nil
  then show ?case by simp
next
  case (Cons x pw)
  obtain p w where x: "x = (p, w)" by (cases x)
  have w: "0 \<le> w" and p: "p \<in> fst ` set ELASTICITY_PROFILES"
    using Cons.prems(1) x by auto
  obtain pr where pr: "lookup_profile p = Inr pr"
    using lookup_profile_known [OF p] by auto
  have cat: "time_lag_nonneg (time_lag_distribution pr)" "time_lag_total (time_lag_distribution pr) = 1"
    using catalog_time_lag lookup_profile_InrD [OF pr] by auto
  let ?acc = "add_time_lag acc (time_lag_distribution pr) w"
  have nn: "time_lag_nonneg ?acc"
    using Cons.prems(2) cat(1) w by (rule add_time_lag_nonneg)
  have rest: "\<forall>(p, w) \<in> set pw. p \<in> fst ` set ELASTICITY_PROFILES \<and> 0 \<le> w"
    using Cons.prems(1) by simp
  obtain d where d: "blend_time_lag ?acc pw = Inr d" "time_lag_nonneg d"
    "time_lag_total d = time_lag_total ?acc + sum_list (map snd pw)"
    using Cons.IH [OF rest nn] by auto
  show ?case
    using d by (simp add: x pr add_time_lag_total cat(2))
qed

lemma fold_max_key:
  "fst (fold (\<lambda>y best. if snd y > snd best then y else best) xs x) \<in> fst ` set (x # xs)"
  for x :: "string \<times> real"
proof (induction xs arbitrary: x)
  case Nil
  then show ?case by simp
next
  case (Cons y xs)
  show ?case using Cons.IH [of y] Cons.IH [of x] by auto
qed

lemma dominant_profile_known:
  assumes "pw \<noteq> []"
  shows "\<exists>k. dominant_profile pw = Inr k \<and> k \<in> fst ` set pw"
proof -
  obtain x xs where pw: "pw = x # xs" using assms by (cases pw) auto
  show ?thesis unfolding pw using fold_max_key [of xs x] by simp
qed

text \<open>
  Claim C9. For every mapping of archetype names to weights whose weights are non-negative
  and sum to 1, \<^verbatim>\<open>calculate_segment_elasticity\<close> returns, and the blended time-lag
  distribution it returns has five non-negative buckets that sum to 1 within \<open>1 / 10 ^ 9\<close>: a
  convex combination of the distributions of the catalog, each of which sums to 1.
\<close>

theorem blended_time_lag_is_distribution:
  assumes "\<forall>(p, w) \<in> set profile_weights. p \<in> fst ` set ELASTICITY_PROFILES \<and> 0 \<le> w"
    and "sum_list (map snd profile_weights) = 1"
  shows "\<exists>sd. calculate_segment_elasticity noise profile_weights = Inr sd \<and>
           (let d = ra_time_lag_distribution (sd_repeat_loss_axis sd)
            in 0 \<le> w0_4_weeks d \<and> 0 \<le> w4_8_weeks d \<and> 0 \<le> w8_12_weeks d \<and>
               0 \<le> w12_16_weeks d \<and> 0 \<le> w16_20_weeks d \<and>
               \<bar>w0_4_weeks d + w4_8_weeks d + w8_12_weeks d + w12_16_weeks d
                  + w16_20_weeks d - 1\<bar> \<le> 1 / 10 ^ 9)"
proof -
  have keys: "\<forall>(p, w) \<in> set profile_weights. p \<in> fst ` set ELASTICITY_PROFILES"
    using assms(1) by auto
  have ne: "profile_weights \<noteq> []" using assms(2) by auto
  obtain s1 where s1: "mix base_acquisition_elasticity profile_weights = Inr s1"
    using mix_known [OF keys] by blast
  obtain s2 where s2: "mix base_repeat_loss_elasticity profile_weights = Inr s2"
    using mix_known [OF keys] by blast
  obtain s3 where s3: "mix base_migration_upgrade profile_weights = Inr s3"
    using mix_known [OF keys] by blast
  obtain s4 where s4: "mix base_migration_downgrade profile_weights = Inr s4"
    using mix_known [OF keys] by blast
  obtain s5 where s5: "mix tenure_decay_rate profile_weights = Inr s5"
    using mix_known [OF keys] by blast
  obtain s6 where s6: "mix engagement_offset profile_weights = Inr s6"
    using mix_known [OF keys] by blast
  obtain s7 where s7: "mix price_history_habituation profile_weights = Inr s7"
    using mix_known [OF keys] by blast
  obtain s8 where s8: "mix migration_asymmetry_factor profile_weights = Inr s8"
    using mix_known [OF keys] by blast
  have z: "time_lag_nonneg zero_time_lag" "time_lag_total zero_time_lag = 0"
    by (simp_all add: zero_time_lag_def time_lag_nonneg_def time_lag_total_def)
  obtain d where d: "blend_time_lag zero_time_lag profile_weights = Inr d" "time_lag_nonneg d"
    "time_lag_total d = 1"
    using blend_time_lag_known [OF assms(1) z(1)] assms(2) z(2) by auto
  obtain k where k: "dominant_profile profile_weights = Inr k" "k \<in> fst ` set profile_weights"
    using dominant_profile_known [OF ne] by blast
  have "k \<in> fst ` set ELASTICITY_PROFILES" using k(2) keys by auto
  then obtain pr where pr: "lookup_profile k = Inr pr"
    using lookup_profile_known by blast
  show ?thesis
    using d(2,3)
    by (simp add: calculate_segment_elasticity_def s1 s2 s3 s4 s5 s6 s7 s8 d(1) k(1) pr
        time_lag_nonneg_def time_lag_total_def)
qed

theorem blended_time_lag_is_distribution_witness:
  "sum_list (map snd [(''ultra_loyal'', 0.25 :: real), (''deal_hunter'', 0.75)]) = 1 \<and>
   (\<exists>sd. calculate_segment_elasticity 0 [(''ultra_loyal'', 0.25), (''deal_hunter'', 0.75)] = Inr sd \<and>
      (let d = ra_time_lag_distribution (sd_repeat_loss_axis sd)
       in 0 \<le> w0_4_weeks d \<and> 0 \<le> w4_8_weeks d \<and> 0 \<le> w8_12_weeks d \<and>
          0 \<le> w12_16_weeks d \<and> 0 \<le> w16_20_weeks d \<and>
          \<bar>w0_4_weeks d + w4_8_weeks d + w8_12_weeks d + w12_16_weeks d
             + w16_20_weeks d - 1\<bar> \<le> 1 / 10 ^ 9))"
proof -
  have h1: "\<forall>(p, w) \<in> set [(''ultra_loyal'', 0.25 :: real), (''deal_hunter'', 0.75)].
      p \<in> fst ` set ELASTICITY_PROFILES \<and> 0 \<le> w"
    by (simp add: ELASTICITY_PROFILES_def)
  have h2: "sum_list (map snd [(''ultra_loyal'', 0.25 :: real), (''deal_hunter'', 0.75)]) = 1"
    by simp
  show ?thesis
    using h2 blended_time_lag_is_distribution [OF h1 h2, of 0] by blast
qed

subsection \<open>Acquisition in exact arithmetic\<close>

text \<open>
  In exact arithmetic the exponential is positive, so the predicted adds are positive, the
  interval is ordered around them and the branch \<^verbatim>\<open>else 0\<close> of the confidence is not taken.
  On doubles \<^verbatim>\<open>np.exp\<close> underflows to 0.0 for a linear predictor below about -745, which
  the exact exponential does not show.
\<close>

lemma predict_acquisition_exact:
  "0 < predicted_adds (predict_acquisition sc) \<and>
   0 \<le> ci_lower (predict_acquisition sc) \<and>
   ci_lower (predict_acquisition sc) \<le> predicted_adds (predict_acquisition sc) \<and>
   predicted_adds (predict_acquisition sc) \<le> ci_upper (predict_acquisition sc) \<and>
   confidence (predict_acquisition sc)
     = sqrt (predicted_adds (predict_acquisition sc)) / predicted_adds (predict_acquisition sc) * 100 \<and>
   0 < confidence (predict_acquisition sc)"
proof -
  define adds where "adds = exp (acq_log_adds sc)"
  have a: "0 < adds" by (simp add: adds_def)
  then have s: "0 < sqrt adds" by simp
  show ?thesis
    using a s unfolding predict_acquisition_def Let_def adds_def [symmetric]
    by (simp add: max_def)
qed

subsection \<open>Acquisition on doubles\<close>

text \<open>With the exact exponential the parametrised body is \<open>predict_acquisition\<close>.\<close>

lemma predict_acquisition_with_exp: "predict_acquisition_with exp sc = predict_acquisition sc"
  by (simp add: predict_acquisition_with_def predict_acquisition_def)

text \<open>
  The underflow threshold \<open>- 1075 * ln 2\<close> lies between -746 and -745: at -745 and above
  \<^verbatim>\<open>np.exp\<close> is positive, at -746 and below it is 0.0.
\<close>

lemma exp_745_less: "exp (745 :: real) < 2 ^ 1075"
proof -
  define y :: real where "y = 149 / 430"
  define S where "S = 1 + y + y^2/2 + y^3/6 + y^4/24"
  define R where "R = \<bar>y\<bar> ^ 5 / 60"
  have b: "\<bar>exp y - S\<bar> \<le> R"
    unfolding S_def R_def by (rule exp_taylor_5) (simp add: y_def)
  have S2: "S \<le> 141409 / 100000"
    unfolding S_def y_def by (simp add: power_divide)
  have R1: "R \<le> 9 / 100000"
    unfolding R_def y_def by (simp add: power_divide)
  have hi: "exp y \<le> 14142 / 10000" using b S2 R1 by linarith
  have "exp y ^ 2 \<le> (14142 / 10000 :: real) ^ 2" using hi by (intro power_mono) simp_all
  also have "\<dots> < 2" by (simp add: power_divide)
  finally have two: "exp (2 * y) < 2" by (simp add: exp_double)
  have "exp (745 :: real) = exp (2 * y) ^ 1075"
    unfolding y_def by (simp add: exp_of_nat_mult [symmetric])
  also have "\<dots> < 2 ^ 1075"
    using two by (intro power_strict_mono) simp_all
  finally show ?thesis .
qed

lemma exp_746_greater: "(2 :: real) ^ 1075 \<le> exp 746"
proof -
  define y :: real where "y = 373 / 1075"
  define S where "S = 1 + y + y^2/2 + y^3/6 + y^4/24"
  define R where "R = \<bar>y\<bar> ^ 5 / 60"
  have b: "\<bar>exp y - S\<bar> \<le> R"
    unfolding S_def R_def by (rule exp_taylor_5) (simp add: y_def)
  have S1: "14147 / 10000 \<le> S"
    unfolding S_def y_def by (simp add: power_divide)
  have R1: "R \<le> 1 / 10000"
    unfolding R_def y_def by (simp add: power_divide)
  have lo: "14146 / 10000 \<le> exp y" using b S1 R1 by linarith
  have "(2 :: real) \<le> (14146 / 10000) ^ 2" by (simp add: power_divide)
  also have "\<dots> \<le> exp y ^ 2" using lo by (intro power_mono) simp_all
  finally have two: "2 \<le> exp (2 * y)" by (simp add: exp_double)
  have "(2 :: real) ^ 1075 \<le> exp (2 * y) ^ 1075"
    using two by (intro power_mono) simp_all
  also have "\<dots> = exp 746"
    unfolding y_def by (simp add: exp_of_nat_mult [symmetric])
  finally show ?thesis .
qed

lemma np_exp_no_underflow:
  assumes "- 745 \<le> x"
  shows "np_exp x = exp x" and "\<not> exp x * 2 ^ 1075 \<le> 1"
proof -
  have "exp (- 745 :: real) \<le> exp x" using assms by simp
  moreover have "1 < exp (- 745 :: real) * 2 ^ 1075"
    using exp_745_less by (simp add: exp_minus field_simps)
  moreover have "exp (- 745 :: real) * 2 ^ 1075 \<le> exp x * 2 ^ 1075"
    using \<open>exp (- 745 :: real) \<le> exp x\<close> by (intro mult_right_mono) simp_all
  ultimately have "1 < exp x * 2 ^ 1075" by linarith
  then show "\<not> exp x * 2 ^ 1075 \<le> 1" by simp
  then show "np_exp x = exp x" by (simp add: np_exp_def)
qed

lemma np_exp_underflow:
  assumes "x \<le> - 746"
  shows "exp x * 2 ^ 1075 \<le> 1" and "np_exp x = 0"
proof -
  have "exp x \<le> exp (- 746 :: real)" using assms by simp
  moreover have "exp (- 746 :: real) * 2 ^ 1075 \<le> 1"
    using exp_746_greater by (simp add: exp_minus field_simps)
  moreover have "exp x * 2 ^ 1075 \<le> exp (- 746 :: real) * 2 ^ 1075"
    using \<open>exp x \<le> exp (- 746 :: real)\<close> by (intro mult_right_mono) simp_all
  ultimately show "exp x * 2 ^ 1075 \<le> 1" by linarith
  then show "np_exp x = 0" by (simp add: np_exp_def)
qed


lemma predict_acquisition_f64_underflow:
  assumes "exp (acq_log_adds sc) * 2 ^ 1075 \<le> 1"
  shows "predicted_adds (predict_acquisition_f64 sc) = 0"
    and "ci_lower (predict_acquisition_f64 sc) = 0"
    and "ci_upper (predict_acquisition_f64 sc) = 0"
    and "confidence (predict_acquisition_f64 sc) = 0"
  using assms
  by (simp_all add: predict_acquisition_f64_def predict_acquisition_with_def np_exp_def Let_def)

text \<open>Where the exponential does not underflow, the two embeddings agree.\<close>

lemma predict_acquisition_f64_exact:
  assumes "\<not> exp (acq_log_adds sc) * 2 ^ 1075 \<le> 1"
  shows "predict_acquisition_f64 sc = predict_acquisition sc"
  using assms
  by (simp add: predict_acquisition_f64_def predict_acquisition_with_def predict_acquisition_def
      np_exp_def Let_def)

text \<open>
  Claim C10, as amended. For every scenario whose linear predictor is at most 709 (above
  about 709.78 \<^verbatim>\<open>np.exp\<close> overflows, which is not represented), \<^verbatim>\<open>predict_acquisition\<close>
  returns an interval with \<open>0 \<le> ci_lower \<le> predicted_adds \<le> ci_upper\<close>. When the linear
  predictor is at least -745, \<^verbatim>\<open>predicted_adds\<close> is its exponential and positive, and the
  confidence is \<open>se / predicted_adds * 100\<close> and positive. When the exponential underflows
  (the exact value is at most \<open>2 ^ -1075\<close>, which holds for every linear predictor of -746
  or less), \<^verbatim>\<open>predicted_adds\<close>, \<^verbatim>\<open>ci_lower\<close> and \<^verbatim>\<open>ci_upper\<close> are 0 and the branch
  \<^verbatim>\<open>else 0\<close> gives the confidence 0: the fallback is reachable.
\<close>

theorem predict_acquisition_f64_interval:
  assumes "acq_log_adds sc \<le> 709"
  shows "(let r = predict_acquisition_f64 sc; l = acq_log_adds sc
          in 0 \<le> ci_lower r \<and> ci_lower r \<le> predicted_adds r \<and>
             predicted_adds r \<le> ci_upper r \<and>
             (- 745 \<le> l \<longrightarrow>
                predicted_adds r = exp l \<and> 0 < predicted_adds r \<and>
                confidence r = sqrt (predicted_adds r) / predicted_adds r * 100 \<and>
                0 < confidence r) \<and>
             (exp l * 2 ^ 1075 \<le> 1 \<longrightarrow>
                predicted_adds r = 0 \<and> ci_lower r = 0 \<and> ci_upper r = 0 \<and> confidence r = 0) \<and>
             (l \<le> - 746 \<longrightarrow> exp l * 2 ^ 1075 \<le> 1))"
proof (cases "exp (acq_log_adds sc) * 2 ^ 1075 \<le> 1")
  case True
  have "\<not> - 745 \<le> acq_log_adds sc"
    using True np_exp_no_underflow(2) [of "acq_log_adds sc"] by blast
  then show ?thesis
    using True predict_acquisition_f64_underflow [OF True] np_exp_underflow(1) [of "acq_log_adds sc"]
    by (simp add: Let_def)
next
  case False
  have e: "predict_acquisition_f64 sc = predict_acquisition sc"
    using False by (rule predict_acquisition_f64_exact)
  have p: "predicted_adds (predict_acquisition sc) = exp (acq_log_adds sc)"
    by (simp add: predict_acquisition_def Let_def)
  have "\<not> acq_log_adds sc \<le> - 746"
    using False np_exp_underflow(1) [of "acq_log_adds sc"] by blast
  then show ?thesis
    using False predict_acquisition_exact [of sc] p
    unfolding Let_def e by simp
qed

theorem predict_acquisition_f64_interval_witness:
  "acq_log_adds empty_scenario = 4.4685 \<and>
   predicted_adds (predict_acquisition_f64 empty_scenario) = exp 4.4685 \<and>
   0 < predicted_adds (predict_acquisition_f64 empty_scenario) \<and>
   0 \<le> ci_lower (predict_acquisition_f64 empty_scenario) \<and>
   ci_lower (predict_acquisition_f64 empty_scenario)
     \<le> predicted_adds (predict_acquisition_f64 empty_scenario) \<and>
   predicted_adds (predict_acquisition_f64 empty_scenario)
     \<le> ci_upper (predict_acquisition_f64 empty_scenario) \<and>
   0 < confidence (predict_acquisition_f64 empty_scenario)"
proof -
  have l: "acq_log_adds empty_scenario = 4.4685"
    by (simp add: acq_log_adds_def acq_promo_features_def empty_scenario_def get_or_def
        ACQUISITION_COEFFICIENTS_def Let_def)
  have h: "acq_log_adds empty_scenario \<le> 709" "- 745 \<le> acq_log_adds empty_scenario"
    unfolding l by simp_all
  show ?thesis
    using predict_acquisition_f64_interval [OF h(1)] h(2) l
    unfolding Let_def by simp
qed

text \<open>
  Claim C10 as stated has \<^verbatim>\<open>predicted_adds > 0\<close> and \<^verbatim>\<open>confidence > 0\<close> for every scenario:
  at \<^verbatim>\<open>new_price\<close> 4000 the linear predictor is -993.284, the exponential underflows, and
  both are 0.
\<close>

theorem predict_acquisition_underflow_counterexample:
  "acq_log_adds (empty_scenario\<lparr>new_price := Some 4000\<rparr>) = - 993.284 \<and>
   predicted_adds (predict_acquisition_f64 (empty_scenario\<lparr>new_price := Some 4000\<rparr>)) = 0 \<and>
   confidence (predict_acquisition_f64 (empty_scenario\<lparr>new_price := Some 4000\<rparr>)) = 0"
proof -
  let ?sc = "empty_scenario\<lparr>new_price := Some 4000\<rparr>"
  have l: "acq_log_adds ?sc = - 993.284"
    by (simp add: acq_log_adds_def acq_promo_features_def empty_scenario_def get_or_def
        ACQUISITION_COEFFICIENTS_def Let_def)
  have "acq_log_adds ?sc \<le> - 746" unfolding l by simp
  then have u: "exp (acq_log_adds ?sc) * 2 ^ 1075 \<le> 1" by (rule np_exp_underflow(1))
  show ?thesis
    using l predict_acquisition_f64_underflow(1,4) [OF u] by simp
qed

end
